theory Spec2Isabelle
  imports Complex_Main
begin

section \<open>Values: floats, columns, tables\<close>

text \<open>
  The program works on pandas objects holding float64 values.  A float is a finite value
  \<open>Fin r\<close> (the real number \<open>r\<close>; \<open>Fin 0\<close> is the zero of positive sign), the zero of
  negative sign \<open>NZero\<close>, one of the two infinities, or \<open>NaN\<close>, which is what the
  source writes as \<open>np.nan\<close> and what the specification calls "missing".
\<close>

datatype pyfloat = Fin real | NZero | PInf | NInf | NaN

text \<open>
  \<open>a < b\<close> on floats: every comparison with \<open>NaN\<close> is false, and the two zeros
  compare as equal.
\<close>

fun fless :: "pyfloat \<Rightarrow> pyfloat \<Rightarrow> bool" where
  "fless NaN _ = False"
| "fless _ NaN = False"
| "fless PInf _ = False"
| "fless _ NInf = False"
| "fless _ PInf = True"
| "fless NInf _ = True"
| "fless (Fin a) (Fin b) = (a < b)"
| "fless (Fin a) NZero = (a < 0)"
| "fless NZero (Fin b) = (0 < b)"
| "fless NZero NZero = False"

text \<open>The exceptions of Python that the modelled code can raise.\<close>

datatype error = KeyError | IndexError | TypeError | AttributeError

text \<open>
  A column of a \<open>DataFrame\<close> is either numeric (dtype float) or of dtype object; the only
  object columns the program makes hold \<open>None\<close>, \<open>'Buy'\<close> or \<open>'Sell'\<close>.
  A table has a number of rows (\<open>len(dataframe)\<close>) and named columns.
\<close>

datatype column = FloatCol "pyfloat list" | ObjectCol "string option list"

record dataframe =
  nrows :: nat
  columns :: "string \<rightharpoonup> column"

text \<open>
  \<open>dataframe[name]\<close> read as numbers: a missing column raises \<open>KeyError\<close>.  The
  program reads numeric columns only.  A read of a column of dtype object is not followed
  further: it is given the result \<open>TypeError\<close>, which is what Python raises when
  \<open>None\<close> or a string is compared with a number, and every property below that speaks of a
  returned result is about tables whose \<open>Close\<close> column is numeric.
\<close>

definition getitem :: "dataframe \<Rightarrow> string \<Rightarrow> error + pyfloat list" where
  "getitem d name =
     (case columns d name of
        None \<Rightarrow> Inl KeyError
      | Some (FloatCol xs) \<Rightarrow> Inr xs
      | Some (ObjectCol ys) \<Rightarrow> Inl TypeError)"

text \<open>
  Python indexing by an integer (\<open>.iloc[i]\<close>, \<open>.values[x]\<close>): a negative index counts
  from the end, an index out of range raises \<open>IndexError\<close>.
\<close>

definition iloc :: "'a list \<Rightarrow> int \<Rightarrow> error + 'a" where
  "iloc xs i =
     (if 0 \<le> i \<and> i < int (length xs) then Inr (xs ! nat i)
      else if i < 0 \<and> - int (length xs) \<le> i then Inr (xs ! nat (int (length xs) + i))
      else Inl IndexError)"

text \<open>\<open>dataframe[name].iloc[i]\<close> and \<open>dataframe[name].values[i]\<close>.\<close>

definition cell :: "dataframe \<Rightarrow> string \<Rightarrow> nat \<Rightarrow> error + pyfloat" where
  "cell d name i =
     (case getitem d name of Inl e \<Rightarrow> Inl e | Inr xs \<Rightarrow> iloc xs (int i))"

text \<open>\<open>dataframe[name] = values\<close>: the column is added or replaced.\<close>

definition setitem :: "dataframe \<Rightarrow> string \<Rightarrow> column \<Rightarrow> dataframe" where
  "setitem d name c = d\<lparr>columns := (columns d)(name \<mapsto> c)\<rparr>"


section \<open>The signal state machine\<close>

text \<open>
  \<open>generate_buy_sell_signals(condition_buy, condition_sell, dataframe, strategy)\<close>.
  The two conditions are callables of the step and the table; they may raise.
  The running variables of the loop are kept in a record.
\<close>

type_synonym condition = "nat \<Rightarrow> dataframe \<Rightarrow> error + bool"

record loop_vars =
  last_signal :: "string option"
  indicator_state :: "string option list"
  buy :: "pyfloat list"
  sell :: "pyfloat list"

definition init_vars :: loop_vars where
  "init_vars = \<lparr>last_signal = None, indicator_state = [], buy = [], sell = []\<rparr>"

text \<open>
  One iteration of the loop body.  \<open>and\<close> evaluates its left operand first, and the
  \<open>elif\<close> test is only evaluated when the \<open>if\<close> test is false.
\<close>

definition loop_body :: "condition \<Rightarrow> condition \<Rightarrow> dataframe \<Rightarrow> loop_vars \<Rightarrow> nat \<Rightarrow> error + loop_vars" where
  "loop_body condition_buy condition_sell d v i =
     (case condition_buy i d of
        Inl e \<Rightarrow> Inl e
      | Inr b \<Rightarrow>
          if b \<and> last_signal v \<noteq> Some ''Buy'' then
            (case cell d ''Close'' i of
               Inl e \<Rightarrow> Inl e
             | Inr c \<Rightarrow> Inr \<lparr>last_signal = Some ''Buy'',
                            indicator_state = indicator_state v @ [Some ''Buy''],
                            buy = buy v @ [c],
                            sell = sell v @ [NaN]\<rparr>)
          else
            (case condition_sell i d of
               Inl e \<Rightarrow> Inl e
             | Inr s \<Rightarrow>
                 if s \<and> last_signal v = Some ''Buy'' then
                   (case cell d ''Close'' i of
                      Inl e \<Rightarrow> Inl e
                    | Inr c \<Rightarrow> Inr \<lparr>last_signal = Some ''Sell'',
                                   indicator_state = indicator_state v @ [Some ''Sell''],
                                   buy = buy v @ [NaN],
                                   sell = sell v @ [c]\<rparr>)
                 else
                   Inr \<lparr>last_signal = last_signal v,
                        indicator_state = indicator_state v @ [last_signal v],
                        buy = buy v @ [NaN],
                        sell = sell v @ [NaN]\<rparr>))"

text \<open>The \<open>for\<close> loop over a list of steps; an exception ends it.\<close>

fun for_loop :: "condition \<Rightarrow> condition \<Rightarrow> dataframe \<Rightarrow> loop_vars \<Rightarrow> nat list \<Rightarrow> error + loop_vars" where
  "for_loop condition_buy condition_sell d v [] = Inr v"
| "for_loop condition_buy condition_sell d v (i # is) =
     (case loop_body condition_buy condition_sell d v i of
        Inl e \<Rightarrow> Inl e
      | Inr v' \<Rightarrow> for_loop condition_buy condition_sell d v' is)"

text \<open>The three columns written after the loop.\<close>

definition store_signals :: "dataframe \<Rightarrow> string \<Rightarrow> loop_vars \<Rightarrow> dataframe" where
  "store_signals d strategy v =
     setitem
       (setitem
          (setitem d (strategy @ ''_Indicator'') (ObjectCol (indicator_state v)))
          (strategy @ ''_Buy'') (FloatCol (buy v)))
       (strategy @ ''_Sell'') (FloatCol (sell v))"

text \<open>
  The function: the table is changed in place, so the model returns the new table
  together with the returned last signal.
\<close>

definition generate_buy_sell_signals ::
  "condition \<Rightarrow> condition \<Rightarrow> dataframe \<Rightarrow> string \<Rightarrow> error + (dataframe \<times> string option)" where
  "generate_buy_sell_signals condition_buy condition_sell d strategy =
     (case for_loop condition_buy condition_sell d init_vars [0..<nrows d] of
        Inl e \<Rightarrow> Inl e
      | Inr v \<Rightarrow> Inr (store_signals d strategy v, last_signal v))"


section \<open>The indicator pipelines\<close>

text \<open>
  The comparisons made by the condition lambdas.  The left operand is read first, then
  the right one; each read can raise.
\<close>

definition cells_less :: "dataframe \<Rightarrow> string \<Rightarrow> string \<Rightarrow> nat \<Rightarrow> error + bool" where
  "cells_less d a b x =
     (case cell d a x of
        Inl e \<Rightarrow> Inl e
      | Inr u \<Rightarrow> (case cell d b x of Inl e \<Rightarrow> Inl e | Inr w \<Rightarrow> Inr (fless u w)))"

definition cells_greater :: "dataframe \<Rightarrow> string \<Rightarrow> string \<Rightarrow> nat \<Rightarrow> error + bool" where
  "cells_greater d a b x =
     (case cell d a x of
        Inl e \<Rightarrow> Inl e
      | Inr u \<Rightarrow> (case cell d b x of Inl e \<Rightarrow> Inl e | Inr w \<Rightarrow> Inr (fless w u)))"

definition cell_below :: "dataframe \<Rightarrow> string \<Rightarrow> nat \<Rightarrow> pyfloat \<Rightarrow> error + bool" where
  "cell_below d a x t = (case cell d a x of Inl e \<Rightarrow> Inl e | Inr u \<Rightarrow> Inr (fless u t))"

definition cell_above :: "dataframe \<Rightarrow> string \<Rightarrow> nat \<Rightarrow> pyfloat \<Rightarrow> error + bool" where
  "cell_above d a x t = (case cell d a x of Inl e \<Rightarrow> Inl e | Inr u \<Rightarrow> Inr (fless t u))"

text \<open>
  The indicator library (package \<open>ta\<close>) is not part of the program: it is a parameter.
  For a price series and the window arguments, each indicator gives a value at every
  position of the series (\<open>NaN\<close> during the warm-up).
\<close>

record indicator_library =
  macd :: "pyfloat list \<Rightarrow> nat \<Rightarrow> nat \<Rightarrow> nat \<Rightarrow> nat \<Rightarrow> pyfloat"
  macd_diff :: "pyfloat list \<Rightarrow> nat \<Rightarrow> nat \<Rightarrow> nat \<Rightarrow> nat \<Rightarrow> pyfloat"
  macd_signal :: "pyfloat list \<Rightarrow> nat \<Rightarrow> nat \<Rightarrow> nat \<Rightarrow> nat \<Rightarrow> pyfloat"
  rsi :: "pyfloat list \<Rightarrow> nat \<Rightarrow> nat \<Rightarrow> pyfloat"
  bollinger_mavg :: "pyfloat list \<Rightarrow> nat \<Rightarrow> nat \<Rightarrow> nat \<Rightarrow> pyfloat"
  bollinger_hband :: "pyfloat list \<Rightarrow> nat \<Rightarrow> nat \<Rightarrow> nat \<Rightarrow> pyfloat"
  bollinger_lband :: "pyfloat list \<Rightarrow> nat \<Rightarrow> nat \<Rightarrow> nat \<Rightarrow> pyfloat"

text \<open>A series of the library stored in a table: one value for each row.\<close>

definition series :: "dataframe \<Rightarrow> (nat \<Rightarrow> pyfloat) \<Rightarrow> column" where
  "series d f = FloatCol (map f [0..<nrows d])"

text \<open>Class \<open>Company\<close>: both attributes start as \<open>None\<close>.\<close>

record company =
  symbol :: string
  technical_indicators :: "dataframe option"
  prices :: "pyfloat list option"

text \<open>
  \<open>last or 'None'\<close>: Python takes the right operand when the left one is falsy, which
  for these values means \<open>None\<close> or the empty string.
\<close>

definition or_None :: "string option \<Rightarrow> string" where
  "or_None l = (case l of None \<Rightarrow> ''None'' | Some s \<Rightarrow> if s = [] then ''None'' else s)"

text \<open>
  \<open>get_macd\<close>.  First the three indicator columns (window parameters 26, 12, 9), then
  the two condition lambdas, then the function.  The indicator is built from
  \<open>company.prices\<close> before the table is written: a method call on \<open>None\<close> is an
  \<open>AttributeError\<close>, item assignment on \<open>None\<close> is a \<open>TypeError\<close>.
\<close>

definition macd_columns :: "indicator_library \<Rightarrow> pyfloat list \<Rightarrow> dataframe \<Rightarrow> dataframe" where
  "macd_columns lib ps df =
     (let df1 = setitem df ''MACD'' (series df (macd lib ps 26 12 9));
          df2 = setitem df1 ''MACD_Histogram'' (series df1 (macd_diff lib ps 26 12 9))
      in setitem df2 ''MACD_Signal'' (series df2 (macd_signal lib ps 26 12 9)))"

definition macd_buy :: condition where
  "macd_buy x d = cells_less d ''MACD'' ''MACD_Signal'' x"

definition macd_sell :: condition where
  "macd_sell x d = cells_greater d ''MACD'' ''MACD_Signal'' x"

definition get_macd :: "indicator_library \<Rightarrow> company \<Rightarrow> error + (company \<times> string)" where
  "get_macd lib c =
     (case prices c of
        None \<Rightarrow> Inl AttributeError
      | Some ps \<Rightarrow>
          (case technical_indicators c of
             None \<Rightarrow> Inl TypeError
           | Some df \<Rightarrow>
               (case generate_buy_sell_signals macd_buy macd_sell (macd_columns lib ps df) ''MACD'' of
                  Inl e \<Rightarrow> Inl e
                | Inr (df', l) \<Rightarrow> Inr (c\<lparr>technical_indicators := Some df'\<rparr>, or_None l))))"

text \<open>\<open>get_rsi\<close>, with its parameters \<open>rsi_time_period\<close>, \<open>low_rsi\<close> and \<open>high_rsi\<close>.\<close>

definition rsi_columns :: "indicator_library \<Rightarrow> pyfloat list \<Rightarrow> nat \<Rightarrow> dataframe \<Rightarrow> dataframe" where
  "rsi_columns lib ps rsi_time_period df = setitem df ''RSI'' (series df (rsi lib ps rsi_time_period))"

definition rsi_buy :: "int \<Rightarrow> condition" where
  "rsi_buy low_rsi x d = cell_below d ''RSI'' x (Fin (of_int low_rsi))"

definition rsi_sell :: "int \<Rightarrow> condition" where
  "rsi_sell high_rsi x d = cell_above d ''RSI'' x (Fin (of_int high_rsi))"

definition get_rsi :: "indicator_library \<Rightarrow> company \<Rightarrow> nat \<Rightarrow> int \<Rightarrow> int \<Rightarrow> error + (company \<times> string)" where
  "get_rsi lib c rsi_time_period low_rsi high_rsi =
     (case prices c of
        None \<Rightarrow> Inl AttributeError
      | Some ps \<Rightarrow>
          (case technical_indicators c of
             None \<Rightarrow> Inl TypeError
           | Some df \<Rightarrow>
               (case generate_buy_sell_signals (rsi_buy low_rsi) (rsi_sell high_rsi)
                       (rsi_columns lib ps rsi_time_period df) ''RSI'' of
                  Inl e \<Rightarrow> Inl e
                | Inr (df', l) \<Rightarrow> Inr (c\<lparr>technical_indicators := Some df'\<rparr>, or_None l))))"

text \<open>\<open>get_bollinger_bands\<close>, with its parameter \<open>window\<close>; \<open>window_dev\<close> is 2.\<close>

definition bollinger_columns :: "indicator_library \<Rightarrow> pyfloat list \<Rightarrow> nat \<Rightarrow> dataframe \<Rightarrow> dataframe" where
  "bollinger_columns lib ps window df =
     (let df1 = setitem df ''Bollinger_Bands_Middle'' (series df (bollinger_mavg lib ps window 2));
          df2 = setitem df1 ''Bollinger_Bands_Upper'' (series df1 (bollinger_hband lib ps window 2))
      in setitem df2 ''Bollinger_Bands_Lower'' (series df2 (bollinger_lband lib ps window 2)))"

definition bollinger_buy :: condition where
  "bollinger_buy x d = cells_less d ''Close'' ''Bollinger_Bands_Lower'' x"

definition bollinger_sell :: condition where
  "bollinger_sell x d = cells_greater d ''Close'' ''Bollinger_Bands_Upper'' x"

definition get_bollinger_bands :: "indicator_library \<Rightarrow> company \<Rightarrow> nat \<Rightarrow> error + (company \<times> string)" where
  "get_bollinger_bands lib c window =
     (case prices c of
        None \<Rightarrow> Inl AttributeError
      | Some ps \<Rightarrow>
          (case technical_indicators c of
             None \<Rightarrow> Inl TypeError
           | Some df \<Rightarrow>
               (case generate_buy_sell_signals bollinger_buy bollinger_sell
                       (bollinger_columns lib ps window df) ''Bollinger_Bands'' of
                  Inl e \<Rightarrow> Inl e
                | Inr (df', l) \<Rightarrow> Inr (c\<lparr>technical_indicators := Some df'\<rparr>, or_None l))))"

text \<open>
  \<open>pd.DataFrame()\<close> followed by \<open>['Close'] = company.prices\<close>: the new table takes the
  rows of the price series; assigning \<open>None\<close> gives a column without rows.
\<close>

definition close_frame :: "pyfloat list option \<Rightarrow> dataframe" where
  "close_frame p =
     (case p of
        None \<Rightarrow> \<lparr>nrows = 0, columns = [''Close'' \<mapsto> ObjectCol []]\<rparr>
      | Some ps \<Rightarrow> \<lparr>nrows = length ps, columns = [''Close'' \<mapsto> FloatCol ps]\<rparr>)"

text \<open>
  \<open>set_technical_indicators\<close>, with the default arguments of \<open>get_rsi\<close> and
  \<open>get_bollinger_bands\<close>.  The company object is changed in place: the model returns it
  with the dictionary of last signals.
\<close>

definition set_technical_indicators ::
  "indicator_library \<Rightarrow> company \<Rightarrow> error + (company \<times> (string \<rightharpoonup> string))" where
  "set_technical_indicators lib c =
     (let c0 = c\<lparr>technical_indicators := Some (close_frame (prices c))\<rparr>
      in case get_macd lib c0 of
           Inl e \<Rightarrow> Inl e
         | Inr (c1, last_macd) \<Rightarrow>
             (case get_rsi lib c1 20 40 70 of
                Inl e \<Rightarrow> Inl e
              | Inr (c2, last_rsi) \<Rightarrow>
                  (case get_bollinger_bands lib c2 20 of
                     Inl e \<Rightarrow> Inl e
                   | Inr (c3, last_bb) \<Rightarrow>
                       Inr (c3, [''MACD'' \<mapsto> last_macd, ''RSI'' \<mapsto> last_rsi, ''BOLL'' \<mapsto> last_bb]))))"


section \<open>The price summary\<close>

text \<open>
  Float arithmetic as numpy does it on float64 values (IEEE 754): no operation raises.  A
  division by zero gives an infinity or \<open>NaN\<close> (with a warning); the sign of a zero or
  of an infinity that results is the one the signs of the operands give; and every other
  result is the exact real result rounded to float64.  The rounding \<open>rnd\<close> (to the
  nearest float, to an infinity on overflow, to a zero of the same sign on underflow) is a
  parameter of the operations.
\<close>

fun finite_val :: "pyfloat \<Rightarrow> real option" where
  "finite_val (Fin a) = Some a"
| "finite_val NZero = Some 0"
| "finite_val _ = None"

text \<open>The sign bit, for the values other than \<open>NaN\<close>.\<close>

fun negative :: "pyfloat \<Rightarrow> bool" where
  "negative (Fin a) = (a < 0)"
| "negative NZero = True"
| "negative NInf = True"
| "negative _ = False"

definition zero_signed :: "bool \<Rightarrow> pyfloat" where
  "zero_signed neg = (if neg then NZero else Fin 0)"

definition inf_signed :: "bool \<Rightarrow> pyfloat" where
  "inf_signed neg = (if neg then NInf else PInf)"

definition fdiv :: "(real \<Rightarrow> pyfloat) \<Rightarrow> pyfloat \<Rightarrow> pyfloat \<Rightarrow> pyfloat" where
  "fdiv rnd x y =
     (if x = NaN \<or> y = NaN then NaN
      else case (finite_val x, finite_val y) of
             (Some a, Some b) \<Rightarrow>
               if b = 0 then (if a = 0 then NaN else inf_signed (negative x \<noteq> negative y))
               else if a = 0 then zero_signed (negative x \<noteq> negative y)
               else rnd (a / b)
           | (Some a, None) \<Rightarrow> zero_signed (negative x \<noteq> negative y)
           | (None, Some b) \<Rightarrow> inf_signed (negative x \<noteq> negative y)
           | (None, None) \<Rightarrow> NaN)"

text \<open>
  A difference that is exactly zero is the positive zero, except for
  \<open>(-0.0) - (+0.0)\<close>; an infinity minus the same infinity is \<open>NaN\<close>.
\<close>

definition fsub :: "(real \<Rightarrow> pyfloat) \<Rightarrow> pyfloat \<Rightarrow> pyfloat \<Rightarrow> pyfloat" where
  "fsub rnd x y =
     (if x = NaN \<or> y = NaN then NaN
      else case (finite_val x, finite_val y) of
             (Some a, Some b) \<Rightarrow>
               if a = b then (if x = NZero \<and> y \<noteq> NZero then NZero else Fin 0)
               else rnd (a - b)
           | (Some a, None) \<Rightarrow> (if y = PInf then NInf else PInf)
           | (None, Some b) \<Rightarrow> x
           | (None, None) \<Rightarrow> (if x = y then NaN else x))"

definition fmul :: "(real \<Rightarrow> pyfloat) \<Rightarrow> pyfloat \<Rightarrow> pyfloat \<Rightarrow> pyfloat" where
  "fmul rnd x y =
     (if x = NaN \<or> y = NaN then NaN
      else case (finite_val x, finite_val y) of
             (Some a, Some b) \<Rightarrow>
               if a = 0 \<or> b = 0 then zero_signed (negative x \<noteq> negative y)
               else rnd (a * b)
           | (Some a, None) \<Rightarrow>
               if a = 0 then NaN else inf_signed (negative x \<noteq> negative y)
           | (None, Some b) \<Rightarrow>
               if b = 0 then NaN else inf_signed (negative x \<noteq> negative y)
           | (None, None) \<Rightarrow> inf_signed (negative x \<noteq> negative y))"

text \<open>
  \<open>Series.max()\<close> and \<open>Series.min()\<close> skip \<open>NaN\<close>; of a series with no other value
  they give \<open>NaN\<close>.
\<close>

definition series_max :: "pyfloat list \<Rightarrow> pyfloat" where
  "series_max xs =
     (case filter (\<lambda>x. x \<noteq> NaN) xs of
        [] \<Rightarrow> NaN
      | y # ys \<Rightarrow> foldl (\<lambda>m x. if fless m x then x else m) y ys)"

definition series_min :: "pyfloat list \<Rightarrow> pyfloat" where
  "series_min xs =
     (case filter (\<lambda>x. x \<noteq> NaN) xs of
        [] \<Rightarrow> NaN
      | y # ys \<Rightarrow> foldl (\<lambda>m x. if fless x m then x else m) y ys)"

record kpi =
  last_price :: pyfloat
  high :: pyfloat
  low :: pyfloat
  change_pct :: pyfloat
  n_points :: nat

text \<open>
  The block headed \<open># KPI\<close> of \<open>index()\<close>, on \<open>company.prices\<close>, in the order of its
  statements: \<open>.iloc[-1]\<close> and \<open>.iloc[0]\<close> raise on an empty series.  The integers 1 and
  100 of the source are the floats \<open>Fin 1\<close> and \<open>Fin 100\<close> in the arithmetic.
\<close>

definition price_summary :: "(real \<Rightarrow> pyfloat) \<Rightarrow> pyfloat list \<Rightarrow> error + kpi" where
  "price_summary rnd ps =
     (case iloc ps (- 1) of
        Inl e \<Rightarrow> Inl e
      | Inr lp \<Rightarrow>
          let h = series_max ps; l = series_min ps
          in (case iloc ps (- 1) of
                Inl e \<Rightarrow> Inl e
              | Inr a \<Rightarrow>
                  (case iloc ps 0 of
                     Inl e \<Rightarrow> Inl e
                   | Inr b \<Rightarrow>
                       Inr \<lparr>last_price = lp, high = h, low = l,
                            change_pct = fmul rnd (fsub rnd (fdiv rnd a b) (Fin 1)) (Fin 100),
                            n_points = length ps\<rparr>)))"


section \<open>Notions used to state the properties\<close>

text \<open>A predicate of the step and the table, as a condition that never raises.\<close>

definition pure_cond :: "(nat \<Rightarrow> dataframe \<Rightarrow> bool) \<Rightarrow> condition" where
  "pure_cond p = (\<lambda>i d. Inr (p i d))"

text \<open>The table has a numeric \<open>Close\<close> column with one price for each row.\<close>

definition numeric_close :: "dataframe \<Rightarrow> bool" where
  "numeric_close d =
     (case columns d ''Close'' of Some (FloatCol xs) \<Rightarrow> length xs = nrows d | _ \<Rightarrow> False)"

text \<open>A numeric column with one value for each row, under any name.\<close>

definition numeric_column :: "dataframe \<Rightarrow> string \<Rightarrow> bool" where
  "numeric_column d name =
     (case columns d name of Some (FloatCol xs) \<Rightarrow> length xs = nrows d | _ \<Rightarrow> False)"

definition close_prices :: "dataframe \<Rightarrow> pyfloat list" where
  "close_prices d = (case columns d ''Close'' of Some (FloatCol xs) \<Rightarrow> xs | _ \<Rightarrow> [])"

text \<open>
  One step of the state machine in the words of the specification: from the two
  conditions, the current state and the closing price to the new state, the buy marker
  and the sell marker.
\<close>

definition spec_step ::
  "bool \<Rightarrow> bool \<Rightarrow> string option \<Rightarrow> pyfloat \<Rightarrow> string option \<times> pyfloat \<times> pyfloat" where
  "spec_step buyCondition sellCondition currentState closePrice =
     (if buyCondition \<and> currentState \<noteq> Some ''Buy'' then (Some ''Buy'', closePrice, NaN)
      else if sellCondition \<and> currentState = Some ''Buy'' then (Some ''Sell'', NaN, closePrice)
      else (currentState, NaN, NaN))"

text \<open>
  The entry of the last-signal map in the words of the specification: the literal
  \<open>"None"\<close> for the \<open>None\<close> sentinel, the state's own string otherwise.
\<close>

definition signal_text :: "string option \<Rightarrow> string" where
  "signal_text lastState = (case lastState of None \<Rightarrow> ''None'' | Some s \<Rightarrow> s)"

text \<open>The state in force before step \<open>i\<close>: \<open>None\<close> before step 0.\<close>

definition before :: "string option list \<Rightarrow> nat \<Rightarrow> string option" where
  "before st i = (if i = 0 then None else st ! (i - 1))"

text \<open>The three columns that a run for \<open>strategy\<close> leaves in the table.\<close>

definition signals_of ::
  "dataframe \<Rightarrow> string \<Rightarrow> string option list \<Rightarrow> pyfloat list \<Rightarrow> pyfloat list \<Rightarrow> bool" where
  "signals_of d strategy st bm sm \<longleftrightarrow>
     columns d (strategy @ ''_Indicator'') = Some (ObjectCol st) \<and>
     columns d (strategy @ ''_Buy'') = Some (FloatCol bm) \<and>
     columns d (strategy @ ''_Sell'') = Some (FloatCol sm)"

text \<open>
  The shape of every step, whatever the conditions were: a buy transition out of a state
  other than \<open>Buy\<close>, a sell transition out of \<open>Buy\<close>, or no transition.
\<close>

definition step_ok :: "string option \<Rightarrow> string option \<Rightarrow> pyfloat \<Rightarrow> pyfloat \<Rightarrow> bool" where
  "step_ok prev s b c \<longleftrightarrow>
     s = Some ''Buy'' \<and> prev \<noteq> Some ''Buy'' \<and> c = NaN \<or>
     s = Some ''Sell'' \<and> prev = Some ''Buy'' \<and> b = NaN \<or>
     s = prev \<and> b = NaN \<and> c = NaN"

text \<open>What holds of the loop variables after any number of iterations.\<close>

definition sound_vars :: "loop_vars \<Rightarrow> bool" where
  "sound_vars v \<longleftrightarrow>
     length (buy v) = length (indicator_state v) \<and>
     length (sell v) = length (indicator_state v) \<and>
     last_signal v = before (indicator_state v) (length (indicator_state v)) \<and>
     (\<forall>i < length (indicator_state v).
        step_ok (before (indicator_state v) i) (indicator_state v ! i) (buy v ! i) (sell v ! i))"

text \<open>
  The loop variables after \<open>m\<close> steps follow the specification's step at each of them.
\<close>

definition scanned ::
  "(nat \<Rightarrow> dataframe \<Rightarrow> bool) \<Rightarrow> (nat \<Rightarrow> dataframe \<Rightarrow> bool) \<Rightarrow> dataframe \<Rightarrow> nat \<Rightarrow> loop_vars \<Rightarrow> bool" where
  "scanned p q d m v \<longleftrightarrow>
     length (indicator_state v) = m \<and> length (buy v) = m \<and> length (sell v) = m \<and>
     last_signal v = before (indicator_state v) m \<and>
     (\<forall>i<m. (indicator_state v ! i, buy v ! i, sell v ! i) =
        spec_step (p i d) (q i d) (before (indicator_state v) i) (close_prices d ! i))"

section \<open>The example of the specification\<close>

text \<open>
  The price series 10, 9, 11, 12, 8 with the buy condition "price below 10" and the sell
  condition "price above 11", written as the condition lambdas of the program are.
\<close>

definition example_table :: dataframe where
  "example_table =
     \<lparr>nrows = 5, columns = [''Close'' \<mapsto> FloatCol [Fin 10, Fin 9, Fin 11, Fin 12, Fin 8]]\<rparr>"

definition example_buy :: condition where
  "example_buy x d = cell_below d ''Close'' x (Fin 10)"

definition example_sell :: condition where
  "example_sell x d = cell_above d ''Close'' x (Fin 11)"

text \<open>The same two conditions as predicates of the closing price.\<close>

definition price_below_10 :: "nat \<Rightarrow> dataframe \<Rightarrow> bool" where
  "price_below_10 i d = fless (close_prices d ! i) (Fin 10)"

definition price_above_11 :: "nat \<Rightarrow> dataframe \<Rightarrow> bool" where
  "price_above_11 i d = fless (Fin 11) (close_prices d ! i)"

text \<open>Conditions that are constant.\<close>

definition always :: "nat \<Rightarrow> dataframe \<Rightarrow> bool" where
  "always i d = True"

definition never :: "nat \<Rightarrow> dataframe \<Rightarrow> bool" where
  "never i d = False"


text \<open>The loop variables at the end of the example, and a table without rows.\<close>

definition example_vars :: loop_vars where
  "example_vars =
     \<lparr>last_signal = Some ''Buy'',
      indicator_state = [None, Some ''Buy'', Some ''Buy'', Some ''Sell'', Some ''Buy''],
      buy = [NaN, Fin 9, NaN, NaN, Fin 8],
      sell = [NaN, NaN, NaN, Fin 12, NaN]\<rparr>"

definition empty_table :: dataframe where
  "empty_table = \<lparr>nrows = 0, columns = [''Close'' \<mapsto> FloatCol []]\<rparr>"


text \<open>
  An indicator library and a company for the example prices: the MACD line is the price
  itself and its signal line the constant 10, the RSI is 30 at the first two positions and
  80 afterwards, and the Bollinger bands are still in their warm-up.
\<close>

definition example_library :: indicator_library where
  "example_library =
     \<lparr>macd = (\<lambda>ps window_slow window_fast window_sign i. ps ! i),
      macd_diff = (\<lambda>ps window_slow window_fast window_sign i. NaN),
      macd_signal = (\<lambda>ps window_slow window_fast window_sign i. Fin 10),
      rsi = (\<lambda>ps window i. if i < 2 then Fin 30 else Fin 80),
      bollinger_mavg = (\<lambda>ps window window_dev i. NaN),
      bollinger_hband = (\<lambda>ps window window_dev i. NaN),
      bollinger_lband = (\<lambda>ps window window_dev i. NaN)\<rparr>"

definition example_company :: company where
  "example_company =
     \<lparr>symbol = ''AAPL'', technical_indicators = None,
      prices = Some [Fin 10, Fin 9, Fin 11, Fin 12, Fin 8]\<rparr>"

definition example_signals_map :: "string \<rightharpoonup> string" where
  "example_signals_map = [''MACD'' \<mapsto> ''Buy'', ''RSI'' \<mapsto> ''Sell'', ''BOLL'' \<mapsto> ''None'']"


section \<open>The loop, step by step\<close>

lemma for_loop_append:
  "for_loop cb cs d v (xs @ ys) =
     (case for_loop cb cs d v xs of Inl e \<Rightarrow> Inl e | Inr v' \<Rightarrow> for_loop cb cs d v' ys)"
  by (induction xs arbitrary: v) (auto split: sum.splits)

lemma cell_close:
  assumes "numeric_close d" "i < nrows d"
  shows "cell d ''Close'' i = Inr (close_prices d ! i)"
  using assms
  by (auto simp: numeric_close_def close_prices_def cell_def getitem_def iloc_def
           split: option.splits column.splits)

lemma loop_body_spec:
  assumes "numeric_close d" "i < nrows d" "cb i d = Inr b" "cs i d = Inr s"
  shows "loop_body cb cs d v i =
     Inr (case spec_step b s (last_signal v) (close_prices d ! i) of
            (st, bm, sm) \<Rightarrow> \<lparr>last_signal = st, indicator_state = indicator_state v @ [st],
                          buy = buy v @ [bm], sell = sell v @ [sm]\<rparr>)"
  using cell_close[OF assms(1,2)] assms(3,4)
  by (simp add: loop_body_def spec_step_def)

lemma for_loop_scanned:
  assumes "numeric_close d" "m \<le> nrows d"
    and "\<And>i. i < nrows d \<Longrightarrow> cb i d = Inr (p i d)"
    and "\<And>i. i < nrows d \<Longrightarrow> cs i d = Inr (q i d)"
  shows "\<exists>v. for_loop cb cs d init_vars [0..<m] = Inr v \<and> scanned p q d m v"
  using assms(2)
proof (induction m)
  case 0
  show ?case by (simp add: scanned_def init_vars_def before_def)
next
  case (Suc m)
  then obtain v where v: "for_loop cb cs d init_vars [0..<m] = Inr v"
    and sc: "scanned p q d m v" by auto
  obtain st bm sm where st: "spec_step (p m d) (q m d) (last_signal v) (close_prices d ! m) = (st, bm, sm)"
    by (cases "spec_step (p m d) (q m d) (last_signal v) (close_prices d ! m)") auto
  let ?v = "\<lparr>last_signal = st, indicator_state = indicator_state v @ [st],
                          buy = buy v @ [bm], sell = sell v @ [sm]\<rparr>"
  have m: "m < nrows d" using Suc.prems by simp
  have body: "loop_body cb cs d v m = Inr ?v"
    using loop_body_spec[where cb=cb and cs=cs and d=d and i=m and v=v and b="p m d" and s="q m d"]
      assms(1) m assms(3)[OF m] assms(4)[OF m] st by simp
  have run: "for_loop cb cs d init_vars [0..<Suc m] = Inr ?v"
    by (simp add: for_loop_append v body)
  have "scanned p q d (Suc m) ?v"
    unfolding scanned_def
  proof (intro conjI allI impI)
    fix i assume "i < Suc m"
    show "(indicator_state ?v ! i, buy ?v ! i, sell ?v ! i) =
        spec_step (p i d) (q i d) (before (indicator_state ?v) i) (close_prices d ! i)"
    proof (cases "i = m")
      case True
      then show ?thesis using sc st by (auto simp: scanned_def before_def nth_append)
    next
      case False
      with \<open>i < Suc m\<close> have "i < m" by simp
      then show ?thesis using sc by (auto simp: scanned_def before_def nth_append)
    qed
  qed (use sc in \<open>auto simp: scanned_def before_def nth_append\<close>)
  with run show ?case by blast
qed

lemma signal_names_distinct:
  "strategy @ ''_Indicator'' \<noteq> strategy @ ''_Buy''"
  "strategy @ ''_Indicator'' \<noteq> strategy @ ''_Sell''"
  "strategy @ ''_Buy'' \<noteq> strategy @ ''_Sell''"
  by simp_all

lemma signals_of_store:
  "signals_of (store_signals d strategy v) strategy (indicator_state v) (buy v) (sell v)"
  by (simp add: signals_of_def store_signals_def setitem_def)

lemma signals_of_unique:
  assumes "signals_of d strategy st bm sm" "signals_of d strategy st' bm' sm'"
  shows "st' = st \<and> bm' = bm \<and> sm' = sm"
  using assms by (simp add: signals_of_def)

lemma nrows_store [simp]: "nrows (store_signals d strategy v) = nrows d"
  by (simp add: store_signals_def setitem_def)

lemma generate_scanned:
  assumes "numeric_close d"
    and "\<And>i. i < nrows d \<Longrightarrow> cb i d = Inr (p i d)"
    and "\<And>i. i < nrows d \<Longrightarrow> cs i d = Inr (q i d)"
  shows "\<exists>v. generate_buy_sell_signals cb cs d strategy =
               Inr (store_signals d strategy v, last_signal v) \<and> scanned p q d (nrows d) v"
proof -
  obtain v where "for_loop cb cs d init_vars [0..<nrows d] = Inr v" "scanned p q d (nrows d) v"
    using for_loop_scanned[where cb=cb and cs=cs and d=d and m="nrows d" and p=p and q=q] assms
    by blast
  then show ?thesis by (auto simp: generate_buy_sell_signals_def)
qed

subsection \<open>What every run satisfies\<close>

lemma sound_init: "sound_vars init_vars"
  by (simp add: sound_vars_def init_vars_def before_def)

lemma sound_snoc:
  assumes "sound_vars v" "step_ok (last_signal v) s b c"
  shows "sound_vars \<lparr>last_signal = s, indicator_state = indicator_state v @ [s],
                     buy = buy v @ [b], sell = sell v @ [c]\<rparr>"
proof -
  let ?n = "length (indicator_state v)"
  let ?w = "\<lparr>last_signal = s, indicator_state = indicator_state v @ [s],
                     buy = buy v @ [b], sell = sell v @ [c]\<rparr>"
  have len: "length (buy v) = ?n" "length (sell v) = ?n"
    and ls: "last_signal v = before (indicator_state v) ?n"
    and old: "\<And>i. i < ?n \<Longrightarrow>
        step_ok (before (indicator_state v) i) (indicator_state v ! i) (buy v ! i) (sell v ! i)"
    using assms(1) by (auto simp: sound_vars_def)
  have bef: "before (indicator_state v @ [s]) i = before (indicator_state v) i" if "i \<le> ?n" for i
    using that by (auto simp: before_def nth_append)
  have "step_ok (before (indicator_state ?w) i) (indicator_state ?w ! i) (buy ?w ! i) (sell ?w ! i)"
    if "i < length (indicator_state ?w)" for i
  proof (cases "i = ?n")
    case True
    then show ?thesis using assms(2) ls len bef[of i] by (simp add: nth_append)
  next
    case False
    with that have "i < ?n" by simp
    then show ?thesis using old[of i] len bef[of i] by (simp add: nth_append)
  qed
  then show ?thesis
    unfolding sound_vars_def using len by (auto simp: before_def)
qed

lemma loop_body_shape:
  assumes "loop_body cb cs d v i = Inr v'"
  shows "\<exists>s b c. v' = \<lparr>last_signal = s, indicator_state = indicator_state v @ [s],
                     buy = buy v @ [b], sell = sell v @ [c]\<rparr> \<and>
           step_ok (last_signal v) s b c"
  using assms
  by (simp add: loop_body_def step_ok_def split: sum.splits if_splits) blast+

lemma loop_body_sound:
  assumes "loop_body cb cs d v i = Inr v'" "sound_vars v"
  shows "sound_vars v' \<and> length (indicator_state v') = Suc (length (indicator_state v))"
proof -
  from loop_body_shape[OF assms(1)] obtain s b c
    where v': "v' = \<lparr>last_signal = s, indicator_state = indicator_state v @ [s],
                     buy = buy v @ [b], sell = sell v @ [c]\<rparr>"
      and ok: "step_ok (last_signal v) s b c"
    by blast
  show ?thesis unfolding v' using sound_snoc[OF assms(2) ok] by simp
qed

lemma for_loop_sound:
  assumes "for_loop cb cs d v is = Inr v'" "sound_vars v"
  shows "sound_vars v' \<and> length (indicator_state v') = length (indicator_state v) + length is"
  using assms
proof (induction "is" arbitrary: v)
  case Nil
  then show ?case by simp
next
  case (Cons i "is")
  from Cons.prems(1) obtain w where w: "loop_body cb cs d v i = Inr w"
    and rest: "for_loop cb cs d w is = Inr v'"
    by (auto split: sum.splits)
  from loop_body_sound[OF w Cons.prems(2)] Cons.IH[OF rest] show ?case by simp
qed

lemma generate_sound:
  assumes "generate_buy_sell_signals cb cs d strategy = Inr (d', ls)"
  shows "\<exists>v. d' = store_signals d strategy v \<and> ls = last_signal v \<and> sound_vars v \<and>
             length (indicator_state v) = nrows d"
proof -
  from assms obtain v where v: "for_loop cb cs d init_vars [0..<nrows d] = Inr v"
    and d': "d' = store_signals d strategy v" "ls = last_signal v"
    by (auto simp: generate_buy_sell_signals_def split: sum.splits)
  from for_loop_sound[OF v sound_init] have "sound_vars v" "length (indicator_state v) = nrows d"
    by (simp_all add: init_vars_def)
  with d' show ?thesis by blast
qed


subsection \<open>Consequences of the step shape for a state sequence\<close>

lemma states_range:
  assumes "\<And>i. i < n \<Longrightarrow> step_ok (before st i) (st ! i) (bm ! i) (sm ! i)" "i < n"
  shows "st ! i = None \<or> st ! i = Some ''Buy'' \<or> st ! i = Some ''Sell''"
  using assms(2)
proof (induction i)
  case 0
  then show ?case using assms(1)[of 0] by (auto simp: step_ok_def before_def)
next
  case (Suc i)
  then show ?case using assms(1)[of "Suc i"] by (auto simp: step_ok_def before_def)
qed

lemma none_prefix:
  assumes "\<And>i. i < n \<Longrightarrow> step_ok (before st i) (st ! i) (bm ! i) (sm ! i)"
    and "j < n" "st ! j = None" "i \<le> j"
  shows "st ! i = None"
  using assms(2,3,4)
proof (induction j)
  case 0
  then show ?case by simp
next
  case (Suc j)
  show ?case
  proof (cases "i = Suc j")
    case True
    then show ?thesis using Suc.prems by simp
  next
    case False
    have "st ! j = None"
      using assms(1)[of "Suc j"] Suc.prems(1,2) by (auto simp: step_ok_def before_def)
    then show ?thesis using Suc False by simp
  qed
qed

lemma first_is_buy:
  assumes "step_ok (before st i) (st ! i) b c" "st ! i \<noteq> None" "before st i = None"
  shows "st ! i = Some ''Buy''"
  using assms by (auto simp: step_ok_def)


section \<open>The example scenario\<close>

lemma example_cells:
  "cell example_table ''Close'' 0 = Inr (Fin 10)"
  "cell example_table ''Close'' (Suc 0) = Inr (Fin 9)"
  "cell example_table ''Close'' 2 = Inr (Fin 11)"
  "cell example_table ''Close'' 3 = Inr (Fin 12)"
  "cell example_table ''Close'' 4 = Inr (Fin 8)"
  by (simp_all add: example_table_def cell_def getitem_def iloc_def)

lemma example_steps: "[0..<nrows example_table] = [0, Suc 0, 2, 3, 4]"
  by (simp add: example_table_def upt_rec)

lemma example_loop:
  "for_loop example_buy example_sell example_table init_vars [0..<nrows example_table] =
     Inr \<lparr>last_signal = Some ''Buy'',
          indicator_state = [None, Some ''Buy'', Some ''Buy'', Some ''Sell'', Some ''Buy''],
          buy = [NaN, Fin 9, NaN, NaN, Fin 8],
          sell = [NaN, NaN, NaN, Fin 12, NaN]\<rparr>"
  by (simp add: example_steps loop_body_def example_buy_def example_sell_def cell_below_def
        cell_above_def example_cells init_vars_def)

text \<open>
  Claim C5.  On the price series 10, 9, 11, 12, 8 with the buy condition "price below 10"
  and the sell condition "price above 11", the state column is None, Buy, Buy, Sell, Buy;
  the buy marker is present exactly at steps 1 (value 9) and 4 (value 8), the sell marker
  exactly at step 3 (value 12); the returned last signal is Buy.
\<close>

theorem example_scenario:
  "\<exists>d'. generate_buy_sell_signals example_buy example_sell example_table strategy =
           Inr (d', Some ''Buy'') \<and>
         signals_of d' strategy
           [None, Some ''Buy'', Some ''Buy'', Some ''Sell'', Some ''Buy'']
           [NaN, Fin 9, NaN, NaN, Fin 8]
           [NaN, NaN, NaN, Fin 12, NaN]"
  using signals_of_store[of example_table strategy
     "\<lparr>last_signal = Some ''Buy'',
          indicator_state = [None, Some ''Buy'', Some ''Buy'', Some ''Sell'', Some ''Buy''],
          buy = [NaN, Fin 9, NaN, NaN, Fin 8],
          sell = [NaN, NaN, NaN, Fin 12, NaN]\<rparr>"]
  by (simp add: generate_buy_sell_signals_def example_loop)


section \<open>Properties of the signal state machine\<close>

lemma pure_cond_apply [simp]: "pure_cond p i d = Inr (p i d)"
  by (simp add: pure_cond_def)

lemma generate_total:
  assumes "numeric_close d"
  shows "\<exists>v. generate_buy_sell_signals (pure_cond p) (pure_cond q) d strategy =
               Inr (store_signals d strategy v, last_signal v) \<and> scanned p q d (nrows d) v"
  using generate_scanned[where cb="pure_cond p" and cs="pure_cond q" and p=p and q=q and d=d] assms
  by simp

lemma numeric_close_example: "numeric_close example_table"
  by (simp add: numeric_close_def example_table_def)

text \<open>
  Claim C1.  On a table with closing prices and for any two predicates, the run returns,
  the three columns have one entry for each step, and at every step \<open>i\<close> the state, the
  buy marker and the sell marker are those of the specification's step applied to the two
  conditions at \<open>i\<close>, the state before \<open>i\<close> (\<open>None\<close> before step 0) and the closing
  price at \<open>i\<close>; the returned last signal is the state after the last step.  In particular,
  where both conditions hold, the step is a buy unless the state is already \<open>Buy\<close>, in
  which case it is a sell.
\<close>

theorem signal_step_semantics:
  assumes "numeric_close d"
  shows "\<exists>d' ls st bm sm.
     generate_buy_sell_signals (pure_cond p) (pure_cond q) d strategy = Inr (d', ls) \<and>
     signals_of d' strategy st bm sm \<and>
     length st = nrows d \<and> length bm = nrows d \<and> length sm = nrows d \<and>
     ls = before st (nrows d) \<and>
     (\<forall>i<nrows d. (st ! i, bm ! i, sm ! i) =
        spec_step (p i d) (q i d) (before st i) (close_prices d ! i)) \<and>
     (\<forall>i<nrows d. p i d \<and> q i d \<longrightarrow>
        (st ! i, bm ! i, sm ! i) =
          (if before st i = Some ''Buy'' then (Some ''Sell'', NaN, close_prices d ! i)
           else (Some ''Buy'', close_prices d ! i, NaN)))"
proof -
  obtain v where run: "generate_buy_sell_signals (pure_cond p) (pure_cond q) d strategy =
               Inr (store_signals d strategy v, last_signal v)"
    and sc: "scanned p q d (nrows d) v"
    using generate_total[OF assms] by blast
  have step: "(indicator_state v ! i, buy v ! i, sell v ! i) =
        spec_step (p i d) (q i d) (before (indicator_state v) i) (close_prices d ! i)"
    if "i < nrows d" for i
    using sc that by (simp add: scanned_def)
  have both: "(indicator_state v ! i, buy v ! i, sell v ! i) =
          (if before (indicator_state v) i = Some ''Buy'' then (Some ''Sell'', NaN, close_prices d ! i)
           else (Some ''Buy'', close_prices d ! i, NaN))"
    if "i < nrows d" "p i d \<and> q i d" for i
    using step[OF that(1)] that(2) by (simp add: spec_step_def)
  show ?thesis
    using run signals_of_store[of d strategy v] sc step both
    by (intro exI[of _ "store_signals d strategy v"] exI[of _ "last_signal v"]
          exI[of _ "indicator_state v"] exI[of _ "buy v"] exI[of _ "sell v"])
       (simp add: scanned_def)
qed

theorem signal_step_semantics_witness:
  "numeric_close example_table \<and>
   (\<exists>d' ls st bm sm.
     generate_buy_sell_signals (pure_cond price_below_10) (pure_cond price_above_11)
        example_table ''RSI'' = Inr (d', ls) \<and>
     signals_of d' ''RSI'' st bm sm \<and>
     length st = nrows example_table \<and> length bm = nrows example_table \<and>
     length sm = nrows example_table \<and>
     ls = before st (nrows example_table) \<and>
     (\<forall>i<nrows example_table. (st ! i, bm ! i, sm ! i) =
        spec_step (price_below_10 i example_table) (price_above_11 i example_table)
          (before st i) (close_prices example_table ! i)) \<and>
     (\<forall>i<nrows example_table. price_below_10 i example_table \<and> price_above_11 i example_table \<longrightarrow>
        (st ! i, bm ! i, sm ! i) =
          (if before st i = Some ''Buy'' then (Some ''Sell'', NaN, close_prices example_table ! i)
           else (Some ''Buy'', close_prices example_table ! i, NaN))))"
  using signal_step_semantics[OF numeric_close_example, of price_below_10 price_above_11 "''RSI''"]
    numeric_close_example
  by simp


lemma for_loop_no_buy:
  assumes "\<And>i. i < nrows d \<Longrightarrow> \<not> p i d" "m \<le> nrows d"
  shows "for_loop (pure_cond p) (pure_cond q) d init_vars [0..<m] =
           Inr \<lparr>last_signal = None, indicator_state = replicate m None,
                buy = replicate m NaN, sell = replicate m NaN\<rparr>"
  using assms(2)
proof (induction m)
  case 0
  show ?case by (simp add: init_vars_def)
next
  case (Suc m)
  then have "m < nrows d" by simp
  then have "\<not> p m d" by (rule assms(1))
  then show ?case
    using Suc by (simp add: for_loop_append loop_body_def replicate_append_same)
qed

lemma generate_columns:
  assumes "generate_buy_sell_signals cb cs d strategy = Inr (d', ls)"
    and "signals_of d' strategy st bm sm"
  shows "length st = nrows d \<and> length bm = nrows d \<and> length sm = nrows d \<and>
         ls = before st (nrows d) \<and>
         (\<forall>i<nrows d. step_ok (before st i) (st ! i) (bm ! i) (sm ! i))"
proof -
  obtain v where v: "d' = store_signals d strategy v" "ls = last_signal v" "sound_vars v"
      "length (indicator_state v) = nrows d"
    using generate_sound[OF assms(1)] by blast
  have "st = indicator_state v \<and> bm = buy v \<and> sm = sell v"
    using signals_of_unique[OF assms(2)] signals_of_store[of d strategy v] v(1) by blast
  then show ?thesis using v by (simp add: sound_vars_def)
qed

text \<open>
  Claim C2.  If the buy condition holds at no step, the run returns \<open>None\<close>, every state
  is \<open>None\<close> and every marker is missing (on any table, as no price is read).  In every
  run, a sell marker or a newly entered \<open>Sell\<close> state occurs only at a step whose previous
  state is \<open>Buy\<close>, and never out of \<open>None\<close>.  A step in state \<open>Sell\<close> at which the buy
  condition holds is a buy again.
\<close>

theorem sell_only_after_buy:
  "((\<forall>i<nrows d. \<not> p i d) \<longrightarrow>
      (\<exists>d'. generate_buy_sell_signals (pure_cond p) (pure_cond q) d strategy = Inr (d', None) \<and>
            signals_of d' strategy (replicate (nrows d) None) (replicate (nrows d) NaN)
              (replicate (nrows d) NaN))) \<and>
   (generate_buy_sell_signals cb cs d strategy = Inr (d', ls) \<and> signals_of d' strategy st bm sm \<longrightarrow>
      (\<forall>i<nrows d.
         (sm ! i \<noteq> NaN \<or> st ! i = Some ''Sell'' \<and> before st i \<noteq> Some ''Sell''
            \<longrightarrow> before st i = Some ''Buy'' \<and> st ! i = Some ''Sell'') \<and>
         (before st i = None \<longrightarrow> st ! i \<noteq> Some ''Sell'' \<and> sm ! i = NaN))) \<and>
   (numeric_close d \<longrightarrow>
      (\<exists>d' ls st bm sm.
         generate_buy_sell_signals (pure_cond p) (pure_cond q) d strategy = Inr (d', ls) \<and>
         signals_of d' strategy st bm sm \<and>
         (\<forall>i<nrows d. before st i = Some ''Sell'' \<and> p i d \<longrightarrow>
            st ! i = Some ''Buy'' \<and> bm ! i = close_prices d ! i)))"
proof (intro conjI impI)
  assume nb: "\<forall>i<nrows d. \<not> p i d"
  have "for_loop (pure_cond p) (pure_cond q) d init_vars [0..<nrows d] =
           Inr \<lparr>last_signal = None, indicator_state = replicate (nrows d) None,
                buy = replicate (nrows d) NaN, sell = replicate (nrows d) NaN\<rparr>"
    using for_loop_no_buy[of d p "nrows d" q] nb by simp
  then show "\<exists>d'. generate_buy_sell_signals (pure_cond p) (pure_cond q) d strategy = Inr (d', None) \<and>
            signals_of d' strategy (replicate (nrows d) None) (replicate (nrows d) NaN)
              (replicate (nrows d) NaN)"
    using signals_of_store[of d strategy "\<lparr>last_signal = None, indicator_state = replicate (nrows d) None,
                buy = replicate (nrows d) NaN, sell = replicate (nrows d) NaN\<rparr>"]
    by (simp add: generate_buy_sell_signals_def)
next
  assume "generate_buy_sell_signals cb cs d strategy = Inr (d', ls) \<and> signals_of d' strategy st bm sm"
  then have ok: "\<And>i. i < nrows d \<Longrightarrow> step_ok (before st i) (st ! i) (bm ! i) (sm ! i)"
    using generate_columns by blast
  show "\<forall>i<nrows d.
         (sm ! i \<noteq> NaN \<or> st ! i = Some ''Sell'' \<and> before st i \<noteq> Some ''Sell''
            \<longrightarrow> before st i = Some ''Buy'' \<and> st ! i = Some ''Sell'') \<and>
         (before st i = None \<longrightarrow> st ! i \<noteq> Some ''Sell'' \<and> sm ! i = NaN)"
  proof (intro allI impI)
    fix i assume "i < nrows d"
    from ok[OF this] show "(sm ! i \<noteq> NaN \<or> st ! i = Some ''Sell'' \<and> before st i \<noteq> Some ''Sell''
            \<longrightarrow> before st i = Some ''Buy'' \<and> st ! i = Some ''Sell'') \<and>
         (before st i = None \<longrightarrow> st ! i \<noteq> Some ''Sell'' \<and> sm ! i = NaN)"
      by (auto simp: step_ok_def)
  qed
next
  assume nc: "numeric_close d"
  obtain v where run: "generate_buy_sell_signals (pure_cond p) (pure_cond q) d strategy =
               Inr (store_signals d strategy v, last_signal v)"
    and sc: "scanned p q d (nrows d) v"
    using generate_total[OF nc] by blast
  have "indicator_state v ! i = Some ''Buy'' \<and> buy v ! i = close_prices d ! i"
    if "i < nrows d" "before (indicator_state v) i = Some ''Sell'' \<and> p i d" for i
    using sc that by (auto simp: scanned_def spec_step_def)
  then show "\<exists>d' ls st bm sm.
         generate_buy_sell_signals (pure_cond p) (pure_cond q) d strategy = Inr (d', ls) \<and>
         signals_of d' strategy st bm sm \<and>
         (\<forall>i<nrows d. before st i = Some ''Sell'' \<and> p i d \<longrightarrow>
            st ! i = Some ''Buy'' \<and> bm ! i = close_prices d ! i)"
    using run signals_of_store[of d strategy v] by blast
qed


lemma example_run:
  "generate_buy_sell_signals example_buy example_sell example_table strategy =
     Inr (store_signals example_table strategy example_vars, Some ''Buy'')"
  by (simp add: generate_buy_sell_signals_def example_loop example_vars_def)

lemma example_signals:
  "signals_of (store_signals example_table strategy example_vars) strategy
     [None, Some ''Buy'', Some ''Buy'', Some ''Sell'', Some ''Buy'']
     [NaN, Fin 9, NaN, NaN, Fin 8] [NaN, NaN, NaN, Fin 12, NaN]"
  using signals_of_store[of example_table strategy example_vars] by (simp add: example_vars_def)

lemma nrows_example: "nrows example_table = 5"
  by (simp add: example_table_def)

theorem sell_only_after_buy_witness:
  "(\<exists>d'. generate_buy_sell_signals (pure_cond never) (pure_cond always) example_table ''MACD'' =
            Inr (d', None) \<and>
         signals_of d' ''MACD'' (replicate (nrows example_table) None)
           (replicate (nrows example_table) NaN) (replicate (nrows example_table) NaN)) \<and>
   before [None, Some ''Buy'', Some ''Buy'', Some ''Sell'', Some ''Buy''] 3 = Some ''Buy'' \<and>
   numeric_close example_table \<and>
   (\<exists>d' ls st bm sm.
      generate_buy_sell_signals (pure_cond price_below_10) (pure_cond price_above_11)
        example_table ''MACD'' = Inr (d', ls) \<and>
      signals_of d' ''MACD'' st bm sm \<and>
      (\<forall>i<nrows example_table. before st i = Some ''Sell'' \<and> price_below_10 i example_table \<longrightarrow>
         st ! i = Some ''Buy'' \<and> bm ! i = close_prices example_table ! i))"
proof -
  have a: "\<forall>i<nrows example_table. \<not> never i example_table"
    by (simp add: never_def)
  have b: "generate_buy_sell_signals example_buy example_sell example_table ''MACD'' =
             Inr (store_signals example_table ''MACD'' example_vars, Some ''Buy'') \<and>
           signals_of (store_signals example_table ''MACD'' example_vars) ''MACD''
             [None, Some ''Buy'', Some ''Buy'', Some ''Sell'', Some ''Buy'']
             [NaN, Fin 9, NaN, NaN, Fin 8] [NaN, NaN, NaN, Fin 12, NaN]"
    using example_run example_signals by simp
  have c: "(3::nat) < nrows example_table" "[NaN, NaN, NaN, Fin 12, NaN] ! 3 \<noteq> NaN"
    by (simp_all add: nrows_example)
  note t = sell_only_after_buy[of example_table never always "''MACD''" example_buy example_sell
      "store_signals example_table ''MACD'' example_vars" "Some ''Buy''"
      "[None, Some ''Buy'', Some ''Buy'', Some ''Sell'', Some ''Buy'']"
      "[NaN, Fin 9, NaN, NaN, Fin 8]" "[NaN, NaN, NaN, Fin 12, NaN]"]
  note u = sell_only_after_buy[of example_table price_below_10 price_above_11 "''MACD''"]
  have 1: "\<exists>d'. generate_buy_sell_signals (pure_cond never) (pure_cond always) example_table ''MACD'' =
            Inr (d', None) \<and>
         signals_of d' ''MACD'' (replicate (nrows example_table) None)
           (replicate (nrows example_table) NaN) (replicate (nrows example_table) NaN)"
    using t a by blast
  have 2: "before [None, Some ''Buy'', Some ''Buy'', Some ''Sell'', Some ''Buy''] 3 = Some ''Buy''"
    using t b c by blast
  have 3: "\<exists>d' ls st bm sm.
      generate_buy_sell_signals (pure_cond price_below_10) (pure_cond price_above_11)
        example_table ''MACD'' = Inr (d', ls) \<and>
      signals_of d' ''MACD'' st bm sm \<and>
      (\<forall>i<nrows example_table. before st i = Some ''Sell'' \<and> price_below_10 i example_table \<longrightarrow>
         st ! i = Some ''Buy'' \<and> bm ! i = close_prices example_table ! i)"
    using u numeric_close_example by blast
  from 1 2 3 numeric_close_example show ?thesis by blast
qed

text \<open>
  Claim C3.  Whatever the conditions and the table, when the run returns, the buy and sell
  columns have one entry for each step and at every step at least one of the two markers is
  missing; and on a table with closing prices the run with predicates does return.
\<close>

theorem markers_exclusive:
  "(generate_buy_sell_signals cb cs d strategy = Inr (d', ls) \<longrightarrow>
      (\<exists>st bm sm. signals_of d' strategy st bm sm \<and>
         length bm = nrows d \<and> length sm = nrows d \<and>
         (\<forall>i<nrows d. bm ! i = NaN \<or> sm ! i = NaN))) \<and>
   (numeric_close d \<longrightarrow>
      (\<exists>d' ls. generate_buy_sell_signals (pure_cond p) (pure_cond q) d strategy = Inr (d', ls)))"
proof (intro conjI impI)
  assume run: "generate_buy_sell_signals cb cs d strategy = Inr (d', ls)"
  then obtain v where v: "d' = store_signals d strategy v"
    using generate_sound by blast
  have s: "signals_of d' strategy (indicator_state v) (buy v) (sell v)"
    unfolding v by (rule signals_of_store)
  from generate_columns[OF run s]
  have "length (buy v) = nrows d \<and> length (sell v) = nrows d \<and>
        (\<forall>i<nrows d. buy v ! i = NaN \<or> sell v ! i = NaN)"
    by (auto simp: step_ok_def)
  with s show "\<exists>st bm sm. signals_of d' strategy st bm sm \<and>
         length bm = nrows d \<and> length sm = nrows d \<and>
         (\<forall>i<nrows d. bm ! i = NaN \<or> sm ! i = NaN)"
    by blast
next
  assume "numeric_close d"
  from generate_total[OF this]
  show "\<exists>d' ls. generate_buy_sell_signals (pure_cond p) (pure_cond q) d strategy = Inr (d', ls)"
    by blast
qed

theorem markers_exclusive_witness:
  "(\<exists>st bm sm. signals_of (store_signals example_table ''RSI'' example_vars) ''RSI'' st bm sm \<and>
         length bm = nrows example_table \<and> length sm = nrows example_table \<and>
         (\<forall>i<nrows example_table. bm ! i = NaN \<or> sm ! i = NaN)) \<and>
   numeric_close example_table \<and>
   (\<exists>d' ls. generate_buy_sell_signals (pure_cond price_below_10) (pure_cond price_above_11)
       example_table ''RSI'' = Inr (d', ls))"
  using markers_exclusive[of example_buy example_sell example_table "''RSI''"
      "store_signals example_table ''RSI'' example_vars" "Some ''Buy''"
      price_below_10 price_above_11]
    example_run[of "''RSI''"] numeric_close_example
  by blast

text \<open>
  Claim C4.  On every table with closing prices (a numeric \<open>Close\<close> column with one
  price for each row) the run with two predicates returns without error, and leaves three
  columns with one entry for each row.  On every table without rows, whatever the
  conditions, it returns \<open>None\<close> and three empty columns.
\<close>

theorem total_with_close:
  "(numeric_close d \<longrightarrow>
      (\<exists>d' ls st bm sm.
         generate_buy_sell_signals (pure_cond p) (pure_cond q) d strategy = Inr (d', ls) \<and>
         signals_of d' strategy st bm sm \<and>
         length st = nrows d \<and> length bm = nrows d \<and> length sm = nrows d)) \<and>
   (nrows d = 0 \<longrightarrow>
      (\<exists>d'. generate_buy_sell_signals cb cs d strategy = Inr (d', None) \<and>
            signals_of d' strategy [] [] []))"
proof (intro conjI impI)
  assume "numeric_close d"
  from generate_total[OF this] obtain v
    where run: "generate_buy_sell_signals (pure_cond p) (pure_cond q) d strategy =
               Inr (store_signals d strategy v, last_signal v)"
      and sc: "scanned p q d (nrows d) v"
    by blast
  have "length (indicator_state v) = nrows d \<and> length (buy v) = nrows d \<and>
        length (sell v) = nrows d"
    using sc by (simp add: scanned_def)
  with run signals_of_store[of d strategy v]
  show "\<exists>d' ls st bm sm.
         generate_buy_sell_signals (pure_cond p) (pure_cond q) d strategy = Inr (d', ls) \<and>
         signals_of d' strategy st bm sm \<and>
         length st = nrows d \<and> length bm = nrows d \<and> length sm = nrows d"
    by blast
next
  assume "nrows d = 0"
  then have "generate_buy_sell_signals cb cs d strategy = Inr (store_signals d strategy init_vars, None)"
    by (simp add: generate_buy_sell_signals_def init_vars_def)
  moreover have "signals_of (store_signals d strategy init_vars) strategy [] [] []"
    using signals_of_store[of d strategy init_vars] by (simp add: init_vars_def)
  ultimately show "\<exists>d'. generate_buy_sell_signals cb cs d strategy = Inr (d', None) \<and>
            signals_of d' strategy [] [] []"
    by blast
qed

theorem total_with_close_witness:
  "numeric_close example_table \<and>
   (\<exists>d' ls st bm sm.
      generate_buy_sell_signals (pure_cond price_below_10) (pure_cond price_above_11)
        example_table ''MACD'' = Inr (d', ls) \<and>
      signals_of d' ''MACD'' st bm sm \<and>
      length st = nrows example_table \<and> length bm = nrows example_table \<and>
      length sm = nrows example_table) \<and>
   numeric_close empty_table \<and> nrows empty_table = 0 \<and>
   (\<exists>d'. generate_buy_sell_signals example_buy example_sell empty_table ''MACD'' = Inr (d', None) \<and>
         signals_of d' ''MACD'' [] [] [])"
proof -
  have e: "nrows empty_table = 0" "numeric_close empty_table"
    by (simp_all add: empty_table_def numeric_close_def)
  note t = total_with_close[of example_table price_below_10 price_above_11 "''MACD''"]
  note u = total_with_close[of empty_table price_below_10 price_above_11 "''MACD''"
      example_buy example_sell]
  note a = t[THEN conjunct1, THEN mp, OF numeric_close_example]
  note b = u[THEN conjunct2, THEN mp, OF e(1)]
  show ?thesis
    by (rule conjI[OF numeric_close_example conjI[OF a conjI[OF e(2) conjI[OF e(1) b]]]])
qed

text \<open>
  Claim C10.  In every run that returns, the state column has one entry for each step; a
  state \<open>None\<close> at step \<open>j\<close> means \<open>None\<close> at every earlier step; the first state
  other than \<open>None\<close> is \<open>Buy\<close>; and on a table with rows the returned last signal is the
  last state of the column.  On a table with closing prices the run with predicates returns.
\<close>

theorem none_only_at_start:
  "(generate_buy_sell_signals cb cs d strategy = Inr (d', ls) \<and> signals_of d' strategy st bm sm \<longrightarrow>
      length st = nrows d \<and>
      (\<forall>i j. i \<le> j \<and> j < nrows d \<and> st ! j = None \<longrightarrow> st ! i = None) \<and>
      (\<forall>i<nrows d. st ! i \<noteq> None \<and> (\<forall>k<i. st ! k = None) \<longrightarrow> st ! i = Some ''Buy'') \<and>
      (0 < nrows d \<longrightarrow> ls = st ! (nrows d - 1))) \<and>
   (numeric_close d \<longrightarrow>
      (\<exists>d' ls st bm sm.
         generate_buy_sell_signals (pure_cond p) (pure_cond q) d strategy = Inr (d', ls) \<and>
         signals_of d' strategy st bm sm))"
proof (intro conjI impI allI)
  assume "numeric_close d"
  from generate_total[OF this] signals_of_store
  show "\<exists>d' ls st bm sm.
         generate_buy_sell_signals (pure_cond p) (pure_cond q) d strategy = Inr (d', ls) \<and>
         signals_of d' strategy st bm sm"
    by blast
next
  assume a: "generate_buy_sell_signals cb cs d strategy = Inr (d', ls) \<and> signals_of d' strategy st bm sm"
  then have cols: "length st = nrows d" "ls = before st (nrows d)"
    and ok: "\<And>i. i < nrows d \<Longrightarrow> step_ok (before st i) (st ! i) (bm ! i) (sm ! i)"
    using generate_columns by blast+
  show "length st = nrows d" by (rule cols)
  { assume "0 < nrows d"
    then show "ls = st ! (nrows d - 1)" using cols by (simp add: before_def) }
  { fix i j assume "i \<le> j \<and> j < nrows d \<and> st ! j = None"
    then show "st ! i = None" using none_prefix[of "nrows d" st bm sm j i] ok by blast }
  { fix i assume i: "i < nrows d" and h: "st ! i \<noteq> None \<and> (\<forall>k<i. st ! k = None)"
    then have "before st i = None" by (auto simp: before_def)
    with ok[OF i] h show "st ! i = Some ''Buy''" using first_is_buy by blast }
qed

theorem none_only_at_start_witness:
  "length [None, Some ''Buy'', Some ''Buy'', Some ''Sell'', Some ''Buy''] = nrows example_table \<and>
   [None, Some ''Buy'', Some ''Buy'', Some ''Sell'', Some ''Buy''] ! (nrows example_table - 1)
      = Some ''Buy'' \<and>
   numeric_close example_table \<and>
   (\<exists>d' ls st bm sm.
         generate_buy_sell_signals (pure_cond price_below_10) (pure_cond price_above_11)
           example_table ''MACD'' = Inr (d', ls) \<and>
         signals_of d' ''MACD'' st bm sm)"
  using none_only_at_start[of example_buy example_sell example_table "''MACD''"
      "store_signals example_table ''MACD'' example_vars" "Some ''Buy''"
      "[None, Some ''Buy'', Some ''Buy'', Some ''Sell'', Some ''Buy'']"
      "[NaN, Fin 9, NaN, NaN, Fin 8]" "[NaN, NaN, NaN, Fin 12, NaN]"
      price_below_10 price_above_11]
    example_run[of "''MACD''"] example_signals[of "''MACD''"] numeric_close_example
  by (simp add: nrows_example)


section \<open>Properties of the price summary\<close>

lemma iloc_last:
  assumes "xs \<noteq> []"
  shows "iloc xs (- 1) = Inr (xs ! (length xs - 1))"
  using assms by (cases xs) (auto simp: iloc_def)

lemma iloc_first:
  assumes "xs \<noteq> []"
  shows "iloc xs 0 = Inr (xs ! 0)"
  using assms by (simp add: iloc_def)

lemma iloc_empty: "iloc [] i = Inl IndexError"
  by (simp add: iloc_def)






lemma fdiv_by_zero:
  assumes "y = Fin 0 \<or> y = NZero"
  shows "fdiv rnd x y = PInf \<or> fdiv rnd x y = NInf \<or> fdiv rnd x y = NaN"
  using assms by (cases x) (auto simp: fdiv_def inf_signed_def split: if_splits)

lemma fsub_special:
  "fsub rnd PInf (Fin 1) = PInf" "fsub rnd NInf (Fin 1) = NInf" "fsub rnd NaN (Fin 1) = NaN"
  by (simp_all add: fsub_def)

lemma fmul_special:
  "fmul rnd PInf (Fin 100) = PInf" "fmul rnd NInf (Fin 100) = NInf" "fmul rnd NaN (Fin 100) = NaN"
  by (simp_all add: fmul_def inf_signed_def)

lemma change_by_zero:
  assumes "y = Fin 0 \<or> y = NZero"
  shows "fmul rnd (fsub rnd (fdiv rnd x y) (Fin 1)) (Fin 100) \<in> {PInf, NInf, NaN}"
  using fdiv_by_zero[OF assms, of rnd x] by (auto simp: fsub_special fmul_special)



text \<open>
  Claim C7, as stated, fails: for the prices 0, 5 the summary is returned, with the change
  plus infinity; nothing is raised, whatever the rounding.
\<close>

theorem zero_open_gives_infinity:
  "\<forall>rnd. price_summary rnd [Fin 0, Fin 5] =
     Inr \<lparr>last_price = Fin 5, high = Fin 5, low = Fin 0, change_pct = PInf, n_points = 2\<rparr>"
  by (simp add: price_summary_def iloc_def series_max_def series_min_def
        fdiv_def fsub_def fmul_def inf_signed_def)

text \<open>
  Claim C7, amended.  For every non-empty series whose first price is a zero (of either
  sign) the changePercent computation raises nothing: the summary is returned, and its
  change is plus infinity, minus infinity or \<open>NaN\<close>.
\<close>

theorem zero_open_no_error:
  assumes "ps \<noteq> []" "ps ! 0 = Fin 0 \<or> ps ! 0 = NZero"
  shows "\<exists>k. price_summary rnd ps = Inr k \<and>
           (change_pct k = PInf \<or> change_pct k = NInf \<or> change_pct k = NaN)"
  using change_by_zero[OF assms(2), of rnd "ps ! (length ps - 1)"]
  unfolding price_summary_def iloc_last[OF assms(1)] iloc_first[OF assms(1)]
  by (simp add: Let_def)

theorem zero_open_no_error_witness:
  "\<forall>rnd. [NZero, Fin 5] \<noteq> [] \<and> ([NZero, Fin 5] ! 0 = Fin 0 \<or> [NZero, Fin 5] ! 0 = NZero) \<and>
     (\<exists>k. price_summary rnd [NZero, Fin 5] = Inr k \<and>
        (change_pct k = PInf \<or> change_pct k = NInf \<or> change_pct k = NaN) \<and>
        change_pct k = NInf)"
proof
  fix rnd :: "real \<Rightarrow> pyfloat"
  have v: "price_summary rnd [NZero, Fin 5] =
      Inr \<lparr>last_price = Fin 5, high = Fin 5, low = NZero, change_pct = NInf, n_points = 2\<rparr>"
    by (simp add: price_summary_def iloc_def series_max_def series_min_def
        fdiv_def fsub_def fmul_def inf_signed_def)
  show "[NZero, Fin 5] \<noteq> [] \<and> ([NZero, Fin 5] ! 0 = Fin 0 \<or> [NZero, Fin 5] ! 0 = NZero) \<and>
     (\<exists>k. price_summary rnd [NZero, Fin 5] = Inr k \<and>
        (change_pct k = PInf \<or> change_pct k = NInf \<or> change_pct k = NaN) \<and>
        change_pct k = NInf)"
    using zero_open_no_error[of "[NZero, Fin 5]" rnd] v by simp
qed


section \<open>Properties of the orchestrator\<close>

lemma generate_last:
  assumes "generate_buy_sell_signals cb cs d strategy = Inr (d', ls)"
  shows "ls = None \<or> ls = Some ''Buy'' \<or> ls = Some ''Sell''"
proof -
  obtain v where v: "d' = store_signals d strategy v" "ls = last_signal v" "sound_vars v"
      "length (indicator_state v) = nrows d"
    using generate_sound[OF assms] by blast
  have ok: "\<And>i. i < nrows d \<Longrightarrow>
      step_ok (before (indicator_state v) i) (indicator_state v ! i) (buy v ! i) (sell v ! i)"
    using v(3,4) by (simp add: sound_vars_def)
  show ?thesis
  proof (cases "nrows d")
    case 0
    then show ?thesis using v by (simp add: sound_vars_def before_def)
  next
    case (Suc k)
    then have "k < nrows d" by simp
    from states_range[of "nrows d" "indicator_state v" "buy v" "sell v" k, OF ok this]
    show ?thesis using v Suc by (simp add: sound_vars_def before_def)
  qed
qed

lemma or_None_text:
  assumes "l = None \<or> l = Some ''Buy'' \<or> l = Some ''Sell''"
  shows "or_None l = signal_text l"
  using assms by (auto simp: or_None_def signal_text_def)

lemma generate_returns:
  assumes "numeric_close d" "\<And>i. i < nrows d \<Longrightarrow> \<not> isl (cb i d)" "\<And>i. i < nrows d \<Longrightarrow> \<not> isl (cs i d)"
  shows "\<exists>d' ls. generate_buy_sell_signals cb cs d strategy = Inr (d', ls)"
proof -
  have "cb i d = Inr (projr (cb i d))" if "i < nrows d" for i
    using assms(2)[OF that] by (cases "cb i d") auto
  moreover have "cs i d = Inr (projr (cs i d))" if "i < nrows d" for i
    using assms(3)[OF that] by (cases "cs i d") auto
  ultimately show ?thesis
    using generate_scanned[where cb=cb and cs=cs and d=d and p="\<lambda>i d. projr (cb i d)"
        and q="\<lambda>i d. projr (cs i d)" and strategy=strategy] assms(1)
    by blast
qed

lemma numeric_close_column: "numeric_close d = numeric_column d ''Close''"
  by (simp add: numeric_close_def numeric_column_def)

lemma cell_numeric:
  assumes "numeric_column d name" "i < nrows d"
  shows "\<not> isl (cell d name i)"
  using assms
  by (auto simp: numeric_column_def cell_def getitem_def iloc_def
           split: option.splits column.splits)

lemma numeric_setitem_same: "numeric_column (setitem d name (series d' f)) name = (nrows d' = nrows d)"
  by (auto simp: numeric_column_def setitem_def series_def)

lemma numeric_setitem_other:
  "name' \<noteq> name \<Longrightarrow> numeric_column (setitem d name c) name' = numeric_column d name'"
  by (auto simp: numeric_column_def setitem_def split: option.splits column.splits)

lemma nrows_setitem [simp]: "nrows (setitem d name c) = nrows d"
  by (simp add: setitem_def)

lemma numeric_store:
  assumes "numeric_column d name" "name \<noteq> strategy @ ''_Indicator''" "name \<noteq> strategy @ ''_Buy''"
    "name \<noteq> strategy @ ''_Sell''"
  shows "numeric_column (store_signals d strategy v) name"
  using assms by (simp add: store_signals_def numeric_setitem_other)

lemma cells_total:
  assumes "numeric_column d a" "numeric_column d b" "i < nrows d"
  shows "\<not> isl (cells_less d a b i)" "\<not> isl (cells_greater d a b i)"
  using cell_numeric[OF assms(1,3)] cell_numeric[OF assms(2,3)]
  by (auto simp: cells_less_def cells_greater_def split: sum.splits)

lemma cell_cmp_total:
  assumes "numeric_column d a" "i < nrows d"
  shows "\<not> isl (cell_below d a i t)" "\<not> isl (cell_above d a i t)"
  using cell_numeric[OF assms]
  by (auto simp: cell_below_def cell_above_def split: sum.splits)

lemma generate_keeps_close:
  assumes "generate_buy_sell_signals cb cs d strategy = Inr (d', ls)" "numeric_close d"
    and "''Close'' \<noteq> strategy @ ''_Indicator''" "''Close'' \<noteq> strategy @ ''_Buy''"
    "''Close'' \<noteq> strategy @ ''_Sell''"
  shows "numeric_close d' \<and> nrows d' = nrows d"
proof -
  obtain v where v: "d' = store_signals d strategy v"
    using generate_sound[OF assms(1)] by blast
  show ?thesis
    unfolding v numeric_close_column
    using numeric_store[of d "''Close''" strategy v] assms(2-) by (simp add: numeric_close_column)
qed

lemma macd_returns:
  assumes "numeric_close df"
  shows "\<exists>d' ls. generate_buy_sell_signals macd_buy macd_sell (macd_columns lib ps df) ''MACD'' = Inr (d', ls)"
proof -
  let ?d = "macd_columns lib ps df"
  have n: "nrows ?d = nrows df" by (simp add: macd_columns_def Let_def)
  have c: "numeric_close ?d"
    using assms by (simp add: macd_columns_def Let_def numeric_close_column numeric_setitem_other)
  have a: "numeric_column ?d ''MACD''"
    by (simp add: macd_columns_def Let_def numeric_setitem_other numeric_setitem_same)
  have b: "numeric_column ?d ''MACD_Signal''"
    by (simp add: macd_columns_def Let_def numeric_setitem_other numeric_setitem_same)
  show ?thesis
    by (rule generate_returns[OF c]) (simp_all add: macd_buy_def macd_sell_def cells_total[OF a b])
qed

lemma rsi_returns:
  assumes "numeric_close df"
  shows "\<exists>d' ls. generate_buy_sell_signals (rsi_buy lo) (rsi_sell hi) (rsi_columns lib ps w df) ''RSI'' = Inr (d', ls)"
proof -
  let ?d = "rsi_columns lib ps w df"
  have c: "numeric_close ?d"
    using assms by (simp add: rsi_columns_def numeric_close_column numeric_setitem_other)
  have a: "numeric_column ?d ''RSI''"
    by (simp add: rsi_columns_def numeric_setitem_same)
  show ?thesis
    by (rule generate_returns[OF c]) (simp_all add: rsi_buy_def rsi_sell_def cell_cmp_total[OF a])
qed

lemma bollinger_returns:
  assumes "numeric_close df"
  shows "\<exists>d' ls. generate_buy_sell_signals bollinger_buy bollinger_sell
           (bollinger_columns lib ps w df) ''Bollinger_Bands'' = Inr (d', ls)"
proof -
  let ?d = "bollinger_columns lib ps w df"
  have c: "numeric_close ?d"
    using assms by (simp add: bollinger_columns_def Let_def numeric_close_column numeric_setitem_other)
  have c': "numeric_column ?d ''Close''"
    using c by (simp add: numeric_close_column)
  have a: "numeric_column ?d ''Bollinger_Bands_Lower''"
    by (simp add: bollinger_columns_def Let_def numeric_setitem_other numeric_setitem_same)
  have b: "numeric_column ?d ''Bollinger_Bands_Upper''"
    by (simp add: bollinger_columns_def Let_def numeric_setitem_other numeric_setitem_same)
  show ?thesis
    by (rule generate_returns[OF c])
       (simp_all add: bollinger_buy_def bollinger_sell_def cells_total[OF c' a] cells_total[OF c' b])
qed


lemma get_macd_Inr:
  assumes "get_macd lib c = Inr (c', r)"
  shows "\<exists>ps df d' l. prices c = Some ps \<and> technical_indicators c = Some df \<and>
           generate_buy_sell_signals macd_buy macd_sell (macd_columns lib ps df) ''MACD'' = Inr (d', l) \<and>
           c' = c\<lparr>technical_indicators := Some d'\<rparr> \<and> r = signal_text l"
proof -
  from assms obtain ps df d' l where h: "prices c = Some ps" "technical_indicators c = Some df"
     "generate_buy_sell_signals macd_buy macd_sell (macd_columns lib ps df) ''MACD'' = Inr (d', l)"
     "c' = c\<lparr>technical_indicators := Some d'\<rparr>" "r = or_None l"
    by (auto simp: get_macd_def split: option.splits sum.splits)
  from or_None_text[OF generate_last[OF h(3)]] h show ?thesis by simp
qed

lemma get_rsi_Inr:
  assumes "get_rsi lib c w lo hi = Inr (c', r)"
  shows "\<exists>ps df d' l. prices c = Some ps \<and> technical_indicators c = Some df \<and>
           generate_buy_sell_signals (rsi_buy lo) (rsi_sell hi) (rsi_columns lib ps w df) ''RSI'' = Inr (d', l) \<and>
           c' = c\<lparr>technical_indicators := Some d'\<rparr> \<and> r = signal_text l"
proof -
  from assms obtain ps df d' l where h: "prices c = Some ps" "technical_indicators c = Some df"
     "generate_buy_sell_signals (rsi_buy lo) (rsi_sell hi) (rsi_columns lib ps w df) ''RSI'' = Inr (d', l)"
     "c' = c\<lparr>technical_indicators := Some d'\<rparr>" "r = or_None l"
    by (auto simp: get_rsi_def split: option.splits sum.splits)
  from or_None_text[OF generate_last[OF h(3)]] h show ?thesis by simp
qed

lemma get_bollinger_bands_Inr:
  assumes "get_bollinger_bands lib c w = Inr (c', r)"
  shows "\<exists>ps df d' l. prices c = Some ps \<and> technical_indicators c = Some df \<and>
           generate_buy_sell_signals bollinger_buy bollinger_sell (bollinger_columns lib ps w df)
             ''Bollinger_Bands'' = Inr (d', l) \<and>
           c' = c\<lparr>technical_indicators := Some d'\<rparr> \<and> r = signal_text l"
proof -
  from assms obtain ps df d' l where h: "prices c = Some ps" "technical_indicators c = Some df"
     "generate_buy_sell_signals bollinger_buy bollinger_sell (bollinger_columns lib ps w df)
        ''Bollinger_Bands'' = Inr (d', l)"
     "c' = c\<lparr>technical_indicators := Some d'\<rparr>" "r = or_None l"
    by (auto simp: get_bollinger_bands_def split: option.splits sum.splits)
  from or_None_text[OF generate_last[OF h(3)]] h show ?thesis by simp
qed

lemma signal_text_range:
  assumes "l = None \<or> l = Some ''Buy'' \<or> l = Some ''Sell''"
  shows "signal_text l = ''None'' \<or> signal_text l = ''Buy'' \<or> signal_text l = ''Sell''"
  using assms by (auto simp: signal_text_def)

lemma set_technical_indicators_Inr:
  assumes "set_technical_indicators lib c = Inr (c', m)"
  shows "\<exists>ps d1 d2 d3 lm lr lb.
       prices c = Some ps \<and>
       generate_buy_sell_signals macd_buy macd_sell
         (macd_columns lib ps (close_frame (Some ps))) ''MACD'' = Inr (d1, lm) \<and>
       generate_buy_sell_signals (rsi_buy 40) (rsi_sell 70)
         (rsi_columns lib ps 20 d1) ''RSI'' = Inr (d2, lr) \<and>
       generate_buy_sell_signals bollinger_buy bollinger_sell
         (bollinger_columns lib ps 20 d2) ''Bollinger_Bands'' = Inr (d3, lb) \<and>
       c' = c\<lparr>technical_indicators := Some d3\<rparr> \<and>
       m = [''MACD'' \<mapsto> signal_text lm, ''RSI'' \<mapsto> signal_text lr, ''BOLL'' \<mapsto> signal_text lb]"
proof -
  let ?c0 = "c\<lparr>technical_indicators := Some (close_frame (prices c))\<rparr>"
  from assms obtain c1 r1 c2 r2 r3 where
    a: "get_macd lib ?c0 = Inr (c1, r1)" and b: "get_rsi lib c1 20 40 70 = Inr (c2, r2)"
    and d: "get_bollinger_bands lib c2 20 = Inr (c', r3)"
    and m: "m = [''MACD'' \<mapsto> r1, ''RSI'' \<mapsto> r2, ''BOLL'' \<mapsto> r3]"
    by (auto simp: set_technical_indicators_def Let_def split: sum.splits)
  from get_macd_Inr[OF a] obtain ps d1 lm where
    1: "prices c = Some ps"
       "generate_buy_sell_signals macd_buy macd_sell
         (macd_columns lib ps (close_frame (Some ps))) ''MACD'' = Inr (d1, lm)"
       "c1 = c\<lparr>technical_indicators := Some d1\<rparr>" "r1 = signal_text lm"
    by auto
  from get_rsi_Inr[OF b] 1 obtain d2 lr where
    2: "generate_buy_sell_signals (rsi_buy 40) (rsi_sell 70)
         (rsi_columns lib ps 20 d1) ''RSI'' = Inr (d2, lr)"
       "c2 = c\<lparr>technical_indicators := Some d2\<rparr>" "r2 = signal_text lr"
    by auto
  from get_bollinger_bands_Inr[OF d] 1 2 obtain d3 lb where
    3: "generate_buy_sell_signals bollinger_buy bollinger_sell
         (bollinger_columns lib ps 20 d2) ''Bollinger_Bands'' = Inr (d3, lb)"
       "c' = c\<lparr>technical_indicators := Some d3\<rparr>" "r3 = signal_text lb"
    by auto
  from 1 2 3 m show ?thesis by blast
qed

lemma numeric_close_frame: "numeric_close (close_frame (Some ps))"
  by (simp add: numeric_close_def close_frame_def)

lemma columns_nrows [simp]:
  "nrows (macd_columns lib ps df) = nrows df"
  "nrows (rsi_columns lib ps w df) = nrows df"
  "nrows (bollinger_columns lib ps w df) = nrows df"
  by (simp_all add: macd_columns_def rsi_columns_def bollinger_columns_def Let_def)

lemma columns_keep_close:
  assumes "numeric_close df"
  shows "numeric_close (macd_columns lib ps df)" "numeric_close (rsi_columns lib ps w df)"
    "numeric_close (bollinger_columns lib ps w df)"
  using assms
  by (simp_all add: macd_columns_def rsi_columns_def bollinger_columns_def Let_def
        numeric_close_column numeric_setitem_other)

lemma set_technical_indicators_returns:
  assumes "prices c = Some ps"
  shows "\<exists>c' m. set_technical_indicators lib c = Inr (c', m)"
proof -
  let ?c0 = "c\<lparr>technical_indicators := Some (close_frame (Some ps))\<rparr>"
  obtain d1 lm where 1: "generate_buy_sell_signals macd_buy macd_sell
         (macd_columns lib ps (close_frame (Some ps))) ''MACD'' = Inr (d1, lm)"
    using macd_returns[OF numeric_close_frame] by blast
  have c1: "numeric_close d1"
    using generate_keeps_close[OF 1 columns_keep_close(1)[OF numeric_close_frame]] by simp
  obtain d2 lr where 2: "generate_buy_sell_signals (rsi_buy 40) (rsi_sell 70)
         (rsi_columns lib ps 20 d1) ''RSI'' = Inr (d2, lr)"
    using rsi_returns[OF c1] by blast
  have c2: "numeric_close d2"
    using generate_keeps_close[OF 2 columns_keep_close(2)[OF c1]] by simp
  obtain d3 lb where 3: "generate_buy_sell_signals bollinger_buy bollinger_sell
         (bollinger_columns lib ps 20 d2) ''Bollinger_Bands'' = Inr (d3, lb)"
    using bollinger_returns[OF c2] by blast
  show ?thesis
    using assms 1 2 3
    by (simp add: set_technical_indicators_def get_macd_def get_rsi_def get_bollinger_bands_def)
qed

lemma upt_5: "[0..<5] = [0, Suc 0, 2, 3, 4]"
  by (simp add: upt_rec)

lemma example_indicators:
  "\<exists>c'. set_technical_indicators example_library example_company = Inr (c', example_signals_map)"
  by (simp add: set_technical_indicators_def example_company_def example_library_def
        get_macd_def get_rsi_def get_bollinger_bands_def close_frame_def
        macd_columns_def rsi_columns_def bollinger_columns_def Let_def setitem_def series_def
        generate_buy_sell_signals_def upt_5 loop_body_def init_vars_def
        macd_buy_def macd_sell_def rsi_buy_def rsi_sell_def bollinger_buy_def bollinger_sell_def
        cells_less_def cells_greater_def cell_below_def cell_above_def cell_def getitem_def iloc_def
        store_signals_def or_None_def example_signals_map_def)

text \<open>
  Claim C8.  When the orchestrator returns, the price series is present, the three runs of
  the state machine (on the table as the pipelines leave it one after the other) returned
  some last states, and the entries \<open>MACD\<close>, \<open>RSI\<close> and \<open>BOLL\<close> of the map are the
  texts of these last states: \<open>"None"\<close> for the sentinel, the state's string otherwise.
  The map has these three keys only and every entry is \<open>"None"\<close>, \<open>"Buy"\<close> or
  \<open>"Sell"\<close>.  The orchestrator returns whenever the company has a price series.
\<close>

theorem last_signal_entries:
  "(set_technical_indicators lib c = Inr (c', m) \<longrightarrow>
      (\<exists>ps d1 d2 d3 lm lr lb.
         prices c = Some ps \<and>
         generate_buy_sell_signals macd_buy macd_sell
           (macd_columns lib ps (close_frame (Some ps))) ''MACD'' = Inr (d1, lm) \<and>
         generate_buy_sell_signals (rsi_buy 40) (rsi_sell 70)
           (rsi_columns lib ps 20 d1) ''RSI'' = Inr (d2, lr) \<and>
         generate_buy_sell_signals bollinger_buy bollinger_sell
           (bollinger_columns lib ps 20 d2) ''Bollinger_Bands'' = Inr (d3, lb) \<and>
         technical_indicators c' = Some d3 \<and>
         m ''MACD'' = Some (signal_text lm) \<and>
         m ''RSI'' = Some (signal_text lr) \<and>
         m ''BOLL'' = Some (signal_text lb) \<and>
         dom m = {''MACD'', ''RSI'', ''BOLL''} \<and>
         ran m \<subseteq> {''None'', ''Buy'', ''Sell''})) \<and>
   (prices c \<noteq> None \<longrightarrow> (\<exists>c' m. set_technical_indicators lib c = Inr (c', m)))"
proof (intro conjI impI)
  assume "set_technical_indicators lib c = Inr (c', m)"
  from set_technical_indicators_Inr[OF this] obtain ps d1 d2 d3 lm lr lb where h:
       "prices c = Some ps"
       "generate_buy_sell_signals macd_buy macd_sell
         (macd_columns lib ps (close_frame (Some ps))) ''MACD'' = Inr (d1, lm)"
       "generate_buy_sell_signals (rsi_buy 40) (rsi_sell 70)
         (rsi_columns lib ps 20 d1) ''RSI'' = Inr (d2, lr)"
       "generate_buy_sell_signals bollinger_buy bollinger_sell
         (bollinger_columns lib ps 20 d2) ''Bollinger_Bands'' = Inr (d3, lb)"
       "c' = c\<lparr>technical_indicators := Some d3\<rparr>"
       "m = [''MACD'' \<mapsto> signal_text lm, ''RSI'' \<mapsto> signal_text lr, ''BOLL'' \<mapsto> signal_text lb]"
    by blast
  have r: "signal_text lm \<in> {''None'', ''Buy'', ''Sell''}"
      "signal_text lr \<in> {''None'', ''Buy'', ''Sell''}"
      "signal_text lb \<in> {''None'', ''Buy'', ''Sell''}"
    using signal_text_range[OF generate_last[OF h(2)]] signal_text_range[OF generate_last[OF h(3)]]
      signal_text_range[OF generate_last[OF h(4)]] by auto
  have "ran m \<subseteq> {''None'', ''Buy'', ''Sell''}"
    unfolding h(6) using r by (auto simp: ran_def split: if_splits)
  moreover have "dom m = {''MACD'', ''RSI'', ''BOLL''}"
    unfolding h(6) by auto
  moreover have "technical_indicators c' = Some d3" using h(5) by simp
  moreover have "m ''MACD'' = Some (signal_text lm)" "m ''RSI'' = Some (signal_text lr)"
    "m ''BOLL'' = Some (signal_text lb)"
    unfolding h(6) by simp_all
  ultimately show "\<exists>ps d1 d2 d3 lm lr lb.
         prices c = Some ps \<and>
         generate_buy_sell_signals macd_buy macd_sell
           (macd_columns lib ps (close_frame (Some ps))) ''MACD'' = Inr (d1, lm) \<and>
         generate_buy_sell_signals (rsi_buy 40) (rsi_sell 70)
           (rsi_columns lib ps 20 d1) ''RSI'' = Inr (d2, lr) \<and>
         generate_buy_sell_signals bollinger_buy bollinger_sell
           (bollinger_columns lib ps 20 d2) ''Bollinger_Bands'' = Inr (d3, lb) \<and>
         technical_indicators c' = Some d3 \<and>
         m ''MACD'' = Some (signal_text lm) \<and>
         m ''RSI'' = Some (signal_text lr) \<and>
         m ''BOLL'' = Some (signal_text lb) \<and>
         dom m = {''MACD'', ''RSI'', ''BOLL''} \<and>
         ran m \<subseteq> {''None'', ''Buy'', ''Sell''}"
    using h(1-4) by blast
next
  assume "prices c \<noteq> None"
  then obtain ps where "prices c = Some ps" by auto
  from set_technical_indicators_returns[OF this]
  show "\<exists>c' m. set_technical_indicators lib c = Inr (c', m)" .
qed

theorem last_signal_entries_witness:
  "(\<exists>c'. set_technical_indicators example_library example_company = Inr (c', example_signals_map) \<and>
      (\<exists>ps d1 d2 d3 lm lr lb.
         prices example_company = Some ps \<and>
         generate_buy_sell_signals macd_buy macd_sell
           (macd_columns example_library ps (close_frame (Some ps))) ''MACD'' = Inr (d1, lm) \<and>
         generate_buy_sell_signals (rsi_buy 40) (rsi_sell 70)
           (rsi_columns example_library ps 20 d1) ''RSI'' = Inr (d2, lr) \<and>
         generate_buy_sell_signals bollinger_buy bollinger_sell
           (bollinger_columns example_library ps 20 d2) ''Bollinger_Bands'' = Inr (d3, lb) \<and>
         technical_indicators c' = Some d3 \<and>
         example_signals_map ''MACD'' = Some (signal_text lm) \<and>
         example_signals_map ''RSI'' = Some (signal_text lr) \<and>
         example_signals_map ''BOLL'' = Some (signal_text lb) \<and>
         dom example_signals_map = {''MACD'', ''RSI'', ''BOLL''} \<and>
         ran example_signals_map \<subseteq> {''None'', ''Buy'', ''Sell''})) \<and>
   prices example_company \<noteq> None \<and>
   (\<exists>c' m. set_technical_indicators example_library example_company = Inr (c', m))"
proof -
  obtain c' where run:
    "set_technical_indicators example_library example_company = Inr (c', example_signals_map)"
    using example_indicators by (rule exE)
  have p: "prices example_company \<noteq> None"
    by (simp add: example_company_def)
  note t = last_signal_entries[of example_library example_company c' example_signals_map]
  note a = t[THEN conjunct1, THEN mp, OF run]
  note b = t[THEN conjunct2, THEN mp, OF p]
  have "\<exists>c'. set_technical_indicators example_library example_company = Inr (c', example_signals_map) \<and>
      (\<exists>ps d1 d2 d3 lm lr lb.
         prices example_company = Some ps \<and>
         generate_buy_sell_signals macd_buy macd_sell
           (macd_columns example_library ps (close_frame (Some ps))) ''MACD'' = Inr (d1, lm) \<and>
         generate_buy_sell_signals (rsi_buy 40) (rsi_sell 70)
           (rsi_columns example_library ps 20 d1) ''RSI'' = Inr (d2, lr) \<and>
         generate_buy_sell_signals bollinger_buy bollinger_sell
           (bollinger_columns example_library ps 20 d2) ''Bollinger_Bands'' = Inr (d3, lb) \<and>
         technical_indicators c' = Some d3 \<and>
         example_signals_map ''MACD'' = Some (signal_text lm) \<and>
         example_signals_map ''RSI'' = Some (signal_text lr) \<and>
         example_signals_map ''BOLL'' = Some (signal_text lb) \<and>
         dom example_signals_map = {''MACD'', ''RSI'', ''BOLL''} \<and>
         ran example_signals_map \<subseteq> {''None'', ''Buy'', ''Sell''})"
    by (rule exI[of _ c'], rule conjI[OF run a])
  then show ?thesis
    by (rule conjI[OF _ conjI[OF p b]])
qed

text \<open>
  Claim C9.  The result of the orchestrator does not depend on the table that the company
  holds before the call; a run leaves the price series and the symbol as they were; and a
  second run, on the company as the first run left it, returns the same company (hence
  the same table, column by column) and the same map of last signals.  The indicator
  library is a function of the prices and the window arguments.
\<close>

theorem orchestrator_repeatable:
  "set_technical_indicators lib (c\<lparr>technical_indicators := t\<rparr>) = set_technical_indicators lib c \<and>
   (set_technical_indicators lib c = Inr (c1, m1) \<longrightarrow>
      prices c1 = prices c \<and> symbol c1 = symbol c \<and>
      set_technical_indicators lib c1 = Inr (c1, m1))"
proof (intro conjI impI)
  show indep: "set_technical_indicators lib (c\<lparr>technical_indicators := t\<rparr>) = set_technical_indicators lib c"
    for t by (simp add: set_technical_indicators_def)
  assume run: "set_technical_indicators lib c = Inr (c1, m1)"
  from set_technical_indicators_Inr[OF this] obtain d3
    where c1: "c1 = c\<lparr>technical_indicators := Some d3\<rparr>" by blast
  show "prices c1 = prices c" "symbol c1 = symbol c" by (simp_all add: c1)
  show "set_technical_indicators lib c1 = Inr (c1, m1)"
    unfolding c1 indep using run c1 by simp
qed

theorem orchestrator_repeatable_witness:
  "set_technical_indicators example_library (example_company\<lparr>technical_indicators := Some example_table\<rparr>)
     = set_technical_indicators example_library example_company \<and>
   (\<exists>c1. set_technical_indicators example_library example_company = Inr (c1, example_signals_map) \<and>
      prices c1 = prices example_company \<and> symbol c1 = symbol example_company \<and>
      set_technical_indicators example_library c1 = Inr (c1, example_signals_map))"
proof -
  obtain c1 where run:
    "set_technical_indicators example_library example_company = Inr (c1, example_signals_map)"
    using example_indicators by (rule exE)
  note t = orchestrator_repeatable[where lib=example_library and c=example_company
      and t="Some example_table" and ?c1.0=c1 and ?m1.0=example_signals_map]
  note a = t[THEN conjunct1]
  note b = t[THEN conjunct2, THEN mp, OF run]
  have "\<exists>c1. set_technical_indicators example_library example_company = Inr (c1, example_signals_map) \<and>
      prices c1 = prices example_company \<and> symbol c1 = symbol example_company \<and>
      set_technical_indicators example_library c1 = Inr (c1, example_signals_map)"
    by (rule exI[of _ c1], rule conjI[OF run b])
  with a show ?thesis by (rule conjI)
qed

end
